theory Spec2Isabelle
  imports Main
begin

section \<open>Python values and string operations used by the two scripts\<close>

text \<open>
  A Python \<open>str\<close> is modelled as a \<open>string\<close>: a list of characters whose code points are
  below 256. On this range the regular-expression class \<open>\d\<close> is exactly the ten ASCII
  digits (the other Unicode decimal digits all lie above 255).
\<close>

text \<open>
  The objects that PyYAML's \<open>safe_load\<close> can return. \<open>YOther\<close> stands for the remaining scalar
  objects (a float, a datetime with a time part, a bytes object); it carries what the
  validator can observe of such an object: its truth value and its \<open>str()\<close>. A dict is the
  list of its entries in insertion order, with \<open>str\<close> keys: the validator only ever looks
  up \<open>str\<close> keys, and mappings with keys of another type are left out of the model.
\<close>

datatype yaml =
    YNull
  | YBool bool
  | YInt int
  | YStr string
  | YDate nat nat nat
  | YList "yaml list"
  | YSet "yaml list"
  | YDict "(string \<times> yaml) list"
  | YOther bool string

text \<open>
  The exceptions the scripts can let escape. \<open>IOFailure\<close> stands for what \<open>read_text\<close> and
  \<open>write_text\<close> raise (an \<open>OSError\<close>, a \<open>UnicodeDecodeError\<close>). \<open>LoaderError\<close> stands for
  an exception of \<open>yaml.safe_load\<close> that is not a \<open>yaml.YAMLError\<close> (the \<open>ValueError\<close> that
  building the date of \<open>2026-02-30\<close> raises, for instance).
\<close>

datatype py_exc = TypeError | IOFailure | KeyError string | LoaderError

text \<open>\<open>bool(v)\<close>, as used by \<open>not version\<close>.\<close>

fun truthy :: "yaml \<Rightarrow> bool" where
  "truthy YNull = False"
| "truthy (YBool b) = b"
| "truthy (YInt i) = (i \<noteq> 0)"
| "truthy (YStr s) = (s \<noteq> [])"
| "truthy (YDate y m d) = True"
| "truthy (YList xs) = (xs \<noteq> [])"
| "truthy (YSet xs) = (xs \<noteq> [])"
| "truthy (YDict kvs) = (kvs \<noteq> [])"
| "truthy (YOther t s) = t"

definition digit_char :: "nat \<Rightarrow> char" where
  "digit_char n = char_of (48 + n mod 10)"

fun show_nat :: "nat \<Rightarrow> string" where
  "show_nat n = (if n < 10 then [digit_char n] else show_nat (n div 10) @ [digit_char n])"

declare show_nat.simps [simp del]

definition show_int :: "int \<Rightarrow> string" where
  "show_int i = (if i < 0 then CHR ''-'' # show_nat (nat (- i)) else show_nat (nat i))"

text \<open>\<open>'%0<w>d' % n\<close>: decimal, padded with zeros on the left to width \<open>w\<close>.\<close>

definition zero_pad :: "nat \<Rightarrow> nat \<Rightarrow> string" where
  "zero_pad w n = replicate (w - length (show_nat n)) CHR ''0'' @ show_nat n"

text \<open>
  \<open>str(v)\<close>. The \<open>str()\<close> of a list, a set or a dict is the interpreter's \<open>repr\<close> of the
  container, built from the \<open>repr\<close> of every item; it is not modelled and is taken as the
  parameter \<open>container_str\<close>. A \<open>datetime.date\<close> prints as \<open>YYYY-MM-DD\<close>.
\<close>

fun py_str :: "(yaml \<Rightarrow> string) \<Rightarrow> yaml \<Rightarrow> string" where
  "py_str container_str YNull = ''None''"
| "py_str container_str (YBool b) = (if b then ''True'' else ''False'')"
| "py_str container_str (YInt i) = show_int i"
| "py_str container_str (YStr s) = s"
| "py_str container_str (YDate y m d) =
     zero_pad 4 y @ ''-'' @ zero_pad 2 m @ ''-'' @ zero_pad 2 d"
| "py_str container_str (YOther t s) = s"
| "py_str container_str v = container_str v"

text \<open>\<open>isinstance(v, list)\<close>.\<close>

fun is_list :: "yaml \<Rightarrow> bool" where
  "is_list (YList xs) = True"
| "is_list v = False"

text \<open>\<open>s.startswith(p)\<close> and \<open>s.endswith(p)\<close>.\<close>

definition startswith :: "string \<Rightarrow> string \<Rightarrow> bool" where
  "startswith s p = (take (length p) s = p)"

definition endswith :: "string \<Rightarrow> string \<Rightarrow> bool" where
  "endswith s p = (length p \<le> length s \<and> drop (length s - length p) s = p)"

text \<open>\<open>sep.join(xs)\<close>.\<close>

fun join :: "string \<Rightarrow> string list \<Rightarrow> string" where
  "join sep [] = []"
| "join sep [x] = x"
| "join sep (x # y # ys) = x @ sep @ join sep (y # ys)"

text \<open>\<open>s.rstrip(cs)\<close> and \<open>s.strip(cs)\<close>: every trailing (leading and trailing) character
  that belongs to \<open>cs\<close> is removed.\<close>

definition rstrip :: "string \<Rightarrow> string \<Rightarrow> string" where
  "rstrip s cs = rev (dropWhile (\<lambda>c. c \<in> set cs) (rev s))"

definition strip :: "string \<Rightarrow> string \<Rightarrow> string" where
  "strip s cs = dropWhile (\<lambda>c. c \<in> set cs) (rstrip s cs)"

text \<open>\<open>sub in s\<close> for two strings: \<open>sub\<close> occurs in \<open>s\<close> as a contiguous slice.\<close>

fun str_contains :: "string \<Rightarrow> string \<Rightarrow> bool" where
  "str_contains [] sub = (sub = [])"
| "str_contains (c # cs) sub = (startswith (c # cs) sub \<or> str_contains cs sub)"

text \<open>
  \<open>field in metadata\<close> for a \<open>str\<close> field: key membership in a dict, item membership in a
  list or a set, substring test in a \<open>str\<close>; any other object is not a container of
  strings and the test raises \<open>TypeError\<close>.
\<close>

fun py_contains :: "yaml \<Rightarrow> string \<Rightarrow> py_exc + bool" where
  "py_contains (YDict kvs) f = Inr (f \<in> set (map fst kvs))"
| "py_contains (YList xs) f = Inr (YStr f \<in> set xs)"
| "py_contains (YSet xs) f = Inr (YStr f \<in> set xs)"
| "py_contains (YStr s) f = Inr (str_contains s f)"
| "py_contains v f = Inl TypeError"

text \<open>
  \<open>metadata[field]\<close> for a \<open>str\<close> field: the value of the key in a dict (\<open>KeyError\<close> when
  absent); indexing anything else with a \<open>str\<close> raises \<open>TypeError\<close>.
\<close>

fun py_getitem :: "yaml \<Rightarrow> string \<Rightarrow> py_exc + yaml" where
  "py_getitem (YDict kvs) f = (case map_of kvs f of Some v \<Rightarrow> Inr v | None \<Rightarrow> Inl (KeyError f))"
| "py_getitem v f = Inl TypeError"


section \<open>validate\_metadata.py\<close>

subsection \<open>The tables\<close>

definition REQUIRED_FIELDS :: "(string \<times> string list) list" where
  "REQUIRED_FIELDS =
    [(''ssot'', [''title'', ''version'', ''updated'', ''scope'', ''category'', ''subcategory'', ''domain'']),
     (''pattern'', [''title'', ''version'', ''updated'', ''scope'', ''category'', ''domain'']),
     (''plan'', [''title'', ''version'', ''updated'', ''scope'', ''category'']),
     (''reference'', [''title'', ''scope'', ''category'']),
     (''archive'', [''title'', ''version'', ''updated'', ''scope'', ''category'', ''archived_date''])]"

definition CATEGORY_PREFIXES :: "string list" where
  "CATEGORY_PREFIXES =
    [''ssot_'', ''pattern_'', ''plan_'', ''reference_'', ''archive_'', ''troubleshoot_'', ''commit_log'']"

subsection \<open>The three regular expressions\<close>

definition is_digit :: "char \<Rightarrow> bool" where
  "is_digit c = (c \<in> set ''0123456789'')"

text \<open>
  \<open>\d+\<close>: the longest non-empty run of digits is consumed and the rest returned. In the
  version pattern every \<open>\d+\<close> is followed by a literal dot or by the end, neither of which a
  digit satisfies, so giving back digits never produces another match.
\<close>

definition digits1 :: "string \<Rightarrow> string option" where
  "digits1 s = (if takeWhile is_digit s = [] then None else Some (dropWhile is_digit s))"

text \<open>\<open>\d{n}\<close>: exactly \<open>n\<close> digits.\<close>

fun digits_n :: "nat \<Rightarrow> string \<Rightarrow> string option" where
  "digits_n 0 s = Some s"
| "digits_n (Suc n) [] = None"
| "digits_n (Suc n) (c # cs) = (if is_digit c then digits_n n cs else None)"

text \<open>One literal character.\<close>

fun lit :: "char \<Rightarrow> string \<Rightarrow> string option" where
  "lit a [] = None"
| "lit a (c # cs) = (if c = a then Some cs else None)"

text \<open>
  \<open>$\<close> (without \<open>re.MULTILINE\<close>): the position is the end of the string, or is just before
  a newline that is the last character of the string.
\<close>

definition at_dollar :: "string \<Rightarrow> bool" where
  "at_dollar s = (s = [] \<or> s = [CHR ''\<newline>''])"

text \<open>\<open>bool(re.match(r'^\d+\.\d+\.\d+$', s))\<close>.\<close>

definition re_version :: "string \<Rightarrow> bool" where
  "re_version s =
    (case Option.bind (Option.bind (Option.bind (Option.bind (digits1 s)
            (lit CHR ''.'')) digits1) (lit CHR ''.'')) digits1 of
       None \<Rightarrow> False
     | Some r \<Rightarrow> at_dollar r)"

text \<open>\<open>bool(re.match(r'^\d{4}-\d{2}-\d{2}', s))\<close>: only a prefix has to match.\<close>

definition re_date_prefix :: "string \<Rightarrow> bool" where
  "re_date_prefix s =
    (Option.bind (Option.bind (Option.bind (Option.bind (digits_n 4 s)
        (lit CHR ''-'')) (digits_n 2)) (lit CHR ''-'')) (digits_n 2) \<noteq> None)"

text \<open>
  Group 1 of \<open>re.match(r'^---\n(.*?)\n---\n', content, re.DOTALL)\<close>. After the opening
  line, the lazy \<open>.*?\<close> (which with \<open>DOTALL\<close> takes any character) stops at the first
  position where \<open>\n---\n\<close> follows.
\<close>

definition fm_open :: string where
  "fm_open = ''---'' @ [CHR ''\<newline>'']"

definition fm_close :: string where
  "fm_close = [CHR ''\<newline>''] @ ''---'' @ [CHR ''\<newline>'']"

fun lazy_until_close :: "string \<Rightarrow> string option" where
  "lazy_until_close [] = None"
| "lazy_until_close (c # cs) =
     (if startswith (c # cs) fm_close then Some []
      else map_option ((#) c) (lazy_until_close cs))"

definition re_frontmatter :: "string \<Rightarrow> string option" where
  "re_frontmatter content =
    (if startswith content fm_open then lazy_until_close (drop (length fm_open) content)
     else None)"

subsection \<open>The functions\<close>

text \<open>What \<open>yaml.safe_load\<close> does with a text: it raises a \<open>yaml.YAMLError\<close>, it raises
  an exception of another class, or it returns an object. PyYAML is not part of the
  repository; the loader is a parameter.\<close>

datatype load_result = YAMLError | OtherError | Loaded yaml

text \<open>\<open>extract_frontmatter\<close> (lines 26-35). Python's \<open>None\<close> is \<open>YNull\<close>; the diagnostic
  printed on a \<open>YAMLError\<close> is not modelled. Only \<open>yaml.YAMLError\<close> is caught: any other
  exception of the loader escapes.\<close>

definition extract_frontmatter :: "(string \<Rightarrow> load_result) \<Rightarrow> string \<Rightarrow> py_exc + yaml" where
  "extract_frontmatter safe_load content =
    (case re_frontmatter content of
       None \<Rightarrow> Inr YNull
     | Some block \<Rightarrow>
         (case safe_load block of
            YAMLError \<Rightarrow> Inr YNull
          | OtherError \<Rightarrow> Inl LoaderError
          | Loaded v \<Rightarrow> Inr v))"

definition msg_prefix :: string where
  "msg_prefix = ''Filename should start with one of: '' @ join '', '' CATEGORY_PREFIXES"

definition msg_suffix :: string where
  "msg_suffix = ''Filename should end with .md''"

text \<open>\<open>validate_naming\<close> (lines 38-51).\<close>

definition validate_naming :: "string \<Rightarrow> string list" where
  "validate_naming filename =
    (let has_prefix = list_ex (\<lambda>prefix. startswith filename prefix) CATEGORY_PREFIXES
     in (if \<not> has_prefix then [msg_prefix] else []) @
        (if \<not> endswith filename ''.md'' then [msg_suffix] else []))"

text \<open>\<open>validate_version\<close> (lines 54-59).\<close>

definition validate_version :: "(yaml \<Rightarrow> string) \<Rightarrow> yaml \<Rightarrow> bool" where
  "validate_version container_str version =
    (if \<not> truthy version then False else re_version (py_str container_str version))"

text \<open>
  \<open>Path(filepath).name\<close> on a POSIX system: the path is cut at every slash, empty
  components and \<open>.\<close> components are dropped, and the name is the last component left
  (the empty string when none is).
\<close>

fun split_on :: "char \<Rightarrow> string \<Rightarrow> string list" where
  "split_on a [] = [[]]"
| "split_on a (c # cs) =
     (if c = a then [] # split_on a cs
      else (case split_on a cs of [] \<Rightarrow> [[c]] | p # ps \<Rightarrow> (c # p) # ps))"

definition path_name :: "string \<Rightarrow> string" where
  "path_name filepath =
    (case filter (\<lambda>q. q \<noteq> [] \<and> q \<noteq> ''.'') (split_on CHR ''/'' filepath) of
       [] \<Rightarrow> []
     | q # qs \<Rightarrow> last (q # qs))"

text \<open>
  What the file system holds at a path: nothing, something that exists but whose
  \<open>read_text\<close> raises (a directory, an unreadable or undecodable file), or a text file.
\<close>

datatype file_state = Absent | Unreadable | Text string

text \<open>Lines 90-95: the category is the first matching prefix without its trailing
  underscores, \<open>None\<close> when no prefix matches.\<close>

definition category_of :: "string \<Rightarrow> string option" where
  "category_of filename =
    map_option (\<lambda>prefix. rstrip prefix ''_'') (find (startswith filename) CATEGORY_PREFIXES)"

text \<open>Line 98: \<open>REQUIRED_FIELDS.get(category, REQUIRED_FIELDS["ssot"])\<close>.\<close>

definition dict_get :: "('k \<times> 'v) list \<Rightarrow> 'k option \<Rightarrow> 'v \<Rightarrow> 'v" where
  "dict_get d k dflt =
    (case k of None \<Rightarrow> dflt
     | Some k' \<Rightarrow> (case map_of d k' of None \<Rightarrow> dflt | Some v \<Rightarrow> v))"

definition required_for :: "string option \<Rightarrow> string list" where
  "required_for category =
    dict_get REQUIRED_FIELDS category (the (map_of REQUIRED_FIELDS ''ssot''))"

text \<open>Line 99: \<open>[field for field in required if field not in metadata]\<close>; the first
  membership test that raises ends the comprehension.\<close>

fun missing_fields :: "string list \<Rightarrow> yaml \<Rightarrow> py_exc + string list" where
  "missing_fields [] metadata = Inr []"
| "missing_fields (field # required) metadata =
     (case py_contains metadata field of
        Inl e \<Rightarrow> Inl e
      | Inr present \<Rightarrow>
          (case missing_fields required metadata of
             Inl e \<Rightarrow> Inl e
           | Inr rest \<Rightarrow> Inr (if \<not> present then field # rest else rest)))"

text \<open>Lines 100-101: the errors of the required-field check.\<close>

definition required_errors :: "string list \<Rightarrow> string list" where
  "required_errors missing =
    (if missing \<noteq> [] then [''Missing required fields: '' @ join '', '' missing] else [])"

text \<open>Lines 104-106: the errors of the version check.\<close>

definition version_errors :: "(yaml \<Rightarrow> string) \<Rightarrow> yaml \<Rightarrow> py_exc + string list" where
  "version_errors container_str metadata =
    (case py_contains metadata ''version'' of
       Inl e \<Rightarrow> Inl e
     | Inr False \<Rightarrow> Inr []
     | Inr True \<Rightarrow>
         (case py_getitem metadata ''version'' of
            Inl e \<Rightarrow> Inl e
          | Inr v \<Rightarrow>
              Inr (if \<not> validate_version container_str v
                   then [''Invalid version format: '' @ py_str container_str v @ '' (should be x.y.z)'']
                   else [])))"

text \<open>Lines 109-113: the warnings of the updated-timestamp check.\<close>

definition updated_warnings :: "(yaml \<Rightarrow> string) \<Rightarrow> yaml \<Rightarrow> py_exc + string list" where
  "updated_warnings container_str metadata =
    (case py_contains metadata ''updated'' of
       Inl e \<Rightarrow> Inl e
     | Inr False \<Rightarrow> Inr []
     | Inr True \<Rightarrow>
         (case py_getitem metadata ''updated'' of
            Inl e \<Rightarrow> Inl e
          | Inr v \<Rightarrow>
              (let updated = py_str container_str v
               in Inr (if \<not> re_date_prefix updated
                       then [''Updated timestamp should be ISO8601 format: '' @ updated]
                       else []))))"

text \<open>Lines 116-118: the errors of the domain check.\<close>

definition domain_errors :: "yaml \<Rightarrow> py_exc + string list" where
  "domain_errors metadata =
    (case py_contains metadata ''domain'' of
       Inl e \<Rightarrow> Inl e
     | Inr False \<Rightarrow> Inr []
     | Inr True \<Rightarrow>
         (case py_getitem metadata ''domain'' of
            Inl e \<Rightarrow> Inl e
          | Inr v \<Rightarrow> Inr (if \<not> is_list v then [''Domain field should be an array/list''] else [])))"

definition msg_changelog :: string where
  "msg_changelog = ''SSOT files should include a changelog section in frontmatter''"

text \<open>Lines 121-122: the warnings of the changelog check; \<open>and\<close> does not evaluate its
  second operand when the category is not \<open>"ssot"\<close>.\<close>

definition changelog_warnings :: "string option \<Rightarrow> yaml \<Rightarrow> py_exc + string list" where
  "changelog_warnings category metadata =
    (if category = Some ''ssot'' then
       (case py_contains metadata ''changelog'' of
          Inl e \<Rightarrow> Inl e
        | Inr present \<Rightarrow> Inr (if \<not> present then [msg_changelog] else []))
     else Inr [])"

definition msg_frontmatter :: string where
  "msg_frontmatter = ''Missing or invalid YAML frontmatter (should be between --- markers)''"

text \<open>
  What a call of \<open>validate_metadata\<close> that returns has done: the value returned, and the
  two lists handed to \<open>print_results\<close> (\<open>None\<close> when \<open>print_results\<close> was not called).
  \<open>print_results\<close> prints the errors as one labelled group and the warnings as another;
  its output is determined by the two lists.
\<close>

record verdict =
  returned :: bool
  errors :: "string list"
  warnings :: "string list"
  results_printed :: bool

text \<open>
  \<open>validate_metadata\<close> (lines 62-125), with the loader, the \<open>str()\<close> of containers and the
  file system as parameters. \<open>Inl\<close> is an exception that escapes the function.
\<close>

definition validate_metadata ::
  "(string \<Rightarrow> load_result) \<Rightarrow> (yaml \<Rightarrow> string) \<Rightarrow> (string \<Rightarrow> file_state) \<Rightarrow> string
     \<Rightarrow> py_exc + verdict" where
  "validate_metadata safe_load container_str fs filepath =
    (case fs filepath of
       Absent \<Rightarrow> Inr \<lparr>returned = False, errors = [], warnings = [], results_printed = False\<rparr>
     | Unreadable \<Rightarrow> Inl IOFailure
     | Text content \<Rightarrow>
        (let name = path_name filepath;
             errors0 = validate_naming name
         in case extract_frontmatter safe_load content of
              Inl e \<Rightarrow> Inl e
            | Inr metadata \<Rightarrow>
            if metadata = YNull then
              Inr \<lparr>returned = False, errors = errors0 @ [msg_frontmatter], warnings = [],
                   results_printed = True\<rparr>
            else
              (let category = category_of name;
                   required = required_for category
               in case missing_fields required metadata of
                    Inl e \<Rightarrow> Inl e
                  | Inr missing \<Rightarrow>
               (let errors1 = errors0 @ required_errors missing
                in case version_errors container_str metadata of
                    Inl e \<Rightarrow> Inl e
                  | Inr ve \<Rightarrow>
               (let errors2 = errors1 @ ve
                in case updated_warnings container_str metadata of
                    Inl e \<Rightarrow> Inl e
                  | Inr uw \<Rightarrow>
               (case domain_errors metadata of
                    Inl e \<Rightarrow> Inl e
                  | Inr de \<Rightarrow>
               (let errors3 = errors2 @ de
                in case changelog_warnings category metadata of
                    Inl e \<Rightarrow> Inl e
                  | Inr cw \<Rightarrow>
                      Inr \<lparr>returned = (length errors3 = 0), errors = errors3,
                           warnings = uw @ cw, results_printed = True\<rparr>)))))))"

section \<open>generate\_template.py\<close>

subsection \<open>The templates\<close>

text \<open>A triple-quoted literal whose closing quotes stand on a line of their own: every
  line, the last one too, ends with a newline.\<close>

definition unlines :: "string list \<Rightarrow> string" where
  "unlines ls = concat (map (\<lambda>l. l @ [CHR ''\<newline>'']) ls)"

definition template_ssot :: string where
  "template_ssot = unlines
    [''---'',
     ''title: {title}'',
     ''version: 0.1.0'',
     ''updated: {timestamp}'',
     ''scope: {scope}'',
     ''category: {category}'',
     ''subcategory: {subcategory}'',
     ''domain: [{domain}]'',
     ''applicability: {applicability}'',
     ''changelog:'',
     ''  - 0.1.0 ({date}): Initial creation.'',
     ''---'',
     '''',
     ''## Purpose'',
     ''{purpose}'',
     '''',
     ''## Overview'',
     ''{overview}'',
     '''',
     ''## Key Components'',
     '''',
     ''### Component 1'',
     ''Description...'',
     '''',
     ''### Component 2'',
     ''Description...'',
     '''',
     ''## Current State'',
     '''',
     ''### What Works'',
     ''- Item 1'',
     ''- Item 2'',
     '''',
     ''### Known Limitations'',
     ''- Limitation 1'',
     ''- Limitation 2'',
     '''',
     ''## Related SSOTs'',
     ''- `related_ssot_1.md` - Description'',
     ''- `related_ssot_2.md` - Description'',
     '''',
     ''## Next Steps'',
     ''- [ ] Task 1'',
     ''- [ ] Task 2'',
     '''',
     ''## References'',
     ''- Internal doc references'',
     ''- External resources'']"

definition template_pattern :: string where
  "template_pattern = unlines
    [''---'',
     ''title: {title}'',
     ''version: 0.1.0'',
     ''updated: {timestamp}'',
     ''scope: {scope}'',
     ''category: pattern'',
     ''subcategory: {subcategory}'',
     ''domain: [{domain}]'',
     ''applicability: {applicability}'',
     ''changelog:'',
     ''  - 0.1.0 ({date}): Initial creation.'',
     ''---'',
     '''',
     ''## Purpose'',
     ''{purpose}'',
     '''',
     ''## Pattern Description'',
     ''{description}'',
     '''',
     ''## When to Apply'',
     ''- Scenario 1'',
     ''- Scenario 2'',
     '''',
     ''## Implementation'',
     '''',
     ''### Approach'',
     ''Steps to implement this pattern...'',
     '''',
     ''### Example'',
     ''```python'',
     ''# Code example'',
     ''```'',
     '''',
     ''## Trade-offs'',
     '''',
     ''### Benefits'',
     ''- Benefit 1'',
     ''- Benefit 2'',
     '''',
     ''### Costs'',
     ''- Cost 1'',
     ''- Cost 2'',
     '''',
     ''## Related Patterns'',
     ''- `related_pattern_1.md`'',
     ''- `related_pattern_2.md`'']"

definition template_reference :: string where
  "template_reference = unlines
    [''---'',
     ''title: {title}'',
     ''scope: {scope}'',
     ''category: reference'',
     ''subcategory: {subcategory}'',
     ''domain: [{domain}]'',
     ''---'',
     '''',
     ''## Purpose'',
     ''{purpose}'',
     '''',
     ''## Quick Reference'',
     '''',
     ''### Category 1'',
     ''| Item | Description | Example |'',
     ''|------|-------------|---------|'',
     ''| Item1 | Desc | `example` |'',
     '''',
     ''### Category 2'',
     ''Details...'',
     '''',
     ''## Detailed Documentation'',
     '''',
     ''### Section 1'',
     ''Content...'',
     '''',
     ''### Section 2'',
     ''Content...'',
     '''',
     ''## Examples'',
     '''',
     ''### Example 1: {example_name}'',
     ''```'',
     ''Code or configuration example'',
     ''```'',
     '''',
     ''### Example 2: {example_name}'',
     ''```'',
     ''Code or configuration example'',
     ''```'',
     '''',
     ''## Additional Resources'',
     ''- Link 1'',
     ''- Link 2'']"

definition template_plan :: string where
  "template_plan = unlines
    [''---'',
     ''title: {title}'',
     ''version: 0.1.0'',
     ''updated: {timestamp}'',
     ''scope: {scope}'',
     ''category: plan'',
     ''subcategory: {subcategory}'',
     ''status: draft'',
     ''changelog:'',
     ''  - 0.1.0 ({date}): Initial plan creation.'',
     ''---'',
     '''',
     ''## Objective'',
     ''{objective}'',
     '''',
     ''## Background'',
     ''{background}'',
     '''',
     ''## Proposed Approach'',
     '''',
     ''### Phase 1: {phase_name}'',
     ''- Task 1'',
     ''- Task 2'',
     '''',
     ''### Phase 2: {phase_name}'',
     ''- Task 1'',
     ''- Task 2'',
     '''',
     ''## Success Criteria'',
     ''- [ ] Criterion 1'',
     ''- [ ] Criterion 2'',
     '''',
     ''## Risks & Mitigations'',
     ''| Risk | Impact | Mitigation |'',
     ''|------|--------|------------|'',
     ''| Risk 1 | High | Mitigation strategy |'',
     '''',
     ''## Timeline'',
     ''- Phase 1: Dates'',
     ''- Phase 2: Dates'',
     '''',
     ''## Related Docs'',
     ''- `related_ssot.md`'',
     ''- `related_pattern.md`'']"

definition TEMPLATES :: "(string \<times> string) list" where
  "TEMPLATES =
    [(''ssot'', template_ssot), (''pattern'', template_pattern),
     (''reference'', template_reference), (''plan'', template_plan)]"

subsection \<open>Dictionaries and \<open>str.format\<close>\<close>

text \<open>\<open>d[k] = v\<close> on a dict kept as the list of its items in insertion order.\<close>

fun dict_set :: "'k \<Rightarrow> 'v \<Rightarrow> ('k \<times> 'v) list \<Rightarrow> ('k \<times> 'v) list" where
  "dict_set k v [] = [(k, v)]"
| "dict_set k v ((k', v') # d) = (if k' = k then (k, v) # d else (k', v') # dict_set k v d)"

text \<open>\<open>d.update(e)\<close>.\<close>

definition dict_update :: "('k \<times> 'v) list \<Rightarrow> ('k \<times> 'v) list \<Rightarrow> ('k \<times> 'v) list" where
  "dict_update d e = fold (\<lambda>(k, v) acc. dict_set k v acc) e d"

text \<open>
  What can end \<open>template.format(**params)\<close> other than a result. \<open>Unsupported\<close> is not a
  Python exception: it marks a format string that uses a feature of \<open>str.format\<close> left out
  of this model (a conversion \<open>!r\<close>, a format spec \<open>:>10\<close>, attribute or index access,
  nested or numbered fields).
\<close>

datatype fmt_error = FmtKeyError string | FmtValueError | FmtIndexError | Unsupported

text \<open>The value of one replacement field \<open>{name}\<close>: an empty name is the positional
  argument 0, and there are no positional arguments; a name is looked up among the
  keyword arguments.\<close>

definition field_value :: "(string \<times> string) list \<Rightarrow> string \<Rightarrow> fmt_error + string" where
  "field_value params name =
    (if name = [] then Inl FmtIndexError
     else if list_all is_digit name then Inl Unsupported
     else (case map_of params name of None \<Rightarrow> Inl (FmtKeyError name) | Some v \<Rightarrow> Inr v))"

definition emit :: "string \<Rightarrow> fmt_error + string \<Rightarrow> fmt_error + string" where
  "emit s r = (case r of Inl e \<Rightarrow> Inl e | Inr out \<Rightarrow> Inr (s @ out))"

text \<open>
  \<open>fmt.format(**params)\<close>, read from left to right. The second argument is \<open>None\<close> in
  literal text and \<open>Some acc\<close> inside a replacement field, \<open>acc\<close> being the characters of
  the field name read so far, last one first. \<open>{{\<close> and \<open>}}\<close> are literal braces, a lone
  \<open>}\<close> and an unclosed \<open>{\<close> are a \<open>ValueError\<close>. The first failure met ends the call.
\<close>

fun py_format :: "(string \<times> string) list \<Rightarrow> string option \<Rightarrow> string \<Rightarrow> fmt_error + string" where
  "py_format params None [] = Inr []"
| "py_format params None (c # cs) =
     (if c = CHR ''{'' then
        (case cs of
           [] \<Rightarrow> Inl FmtValueError
         | c' # cs' \<Rightarrow>
             if c' = CHR ''{'' then emit ''{'' (py_format params None cs')
             else py_format params (Some []) cs)
      else if c = CHR ''}'' then
        (case cs of
           [] \<Rightarrow> Inl FmtValueError
         | c' # cs' \<Rightarrow>
             if c' = CHR ''}'' then emit ''}'' (py_format params None cs')
             else Inl FmtValueError)
      else emit [c] (py_format params None cs))"
| "py_format params (Some acc) [] = Inl FmtValueError"
| "py_format params (Some acc) (c # cs) =
     (if c = CHR ''}'' then
        (case field_value params (rev acc) of
           Inl e \<Rightarrow> Inl e
         | Inr v \<Rightarrow> emit v (py_format params None cs))
      else if c \<in> set ''{!:.['' then Inl Unsupported
      else py_format params (Some (c # acc)) cs)"

subsection \<open>The functions\<close>

text \<open>How a call of \<open>generate_template\<close> can end without a result: \<open>sys.exit(1)\<close>, or an
  exception.\<close>

datatype gen_fail = SysExit1 | FormatRaised fmt_error | CallTypeError

definition default_params :: "string \<Rightarrow> string \<Rightarrow> string \<Rightarrow> (string \<times> string) list" where
  "default_params timestamp date category =
    [(''title'', ''New Memory''),
     (''timestamp'', timestamp),
     (''date'', date),
     (''scope'', ''to-be-defined''),
     (''category'', category),
     (''subcategory'', ''general''),
     (''domain'', ''domain1, domain2''),
     (''applicability'', ''specific area or '' @ [CHR 0x27] @ ''all'' @ [CHR 0x27]),
     (''purpose'', ''Brief statement of purpose...''),
     (''overview'', ''High-level overview...''),
     (''description'', ''Detailed description...''),
     (''objective'', ''What this plan aims to achieve...''),
     (''background'', ''Context and motivation...''),
     (''phase_name'', ''Phase Name''),
     (''example_name'', ''Example Name'')]"

text \<open>
  \<open>generate_template(category, **kwargs)\<close> (lines 216-243). The results of
  \<open>generate_timestamp()\<close> and \<open>generate_date()\<close>, which read the clock, are the parameters
  \<open>timestamp\<close> and \<open>date\<close>. A keyword argument named \<open>category\<close> collides with the
  positional parameter and the call itself raises \<open>TypeError\<close>.
\<close>

definition generate_template ::
  "string \<Rightarrow> string \<Rightarrow> string \<Rightarrow> (string \<times> string) list \<Rightarrow> gen_fail + string" where
  "generate_template timestamp date category kwargs =
    (if ''category'' \<in> set (map fst kwargs) then Inl CallTypeError
     else (case map_of TEMPLATES category of
        None \<Rightarrow> Inl SysExit1
      | Some template \<Rightarrow>
          (let params = dict_update (default_params timestamp date category) kwargs
           in case py_format params None template of
                Inl e \<Rightarrow> Inl (FormatRaised e)
              | Inr text \<Rightarrow> Inr text)))"

text \<open>Lines 263-268: the trailing arguments. \<open>arg.split('=', 1)\<close> cuts at the first
  equals sign; the characters stripped from the value are the two quote characters.\<close>

definition quote_chars :: string where
  "quote_chars = [CHR 0x27, CHR 0x22]"

definition parse_overrides :: "string list \<Rightarrow> (string \<times> string) list" where
  "parse_overrides args =
    fold (\<lambda>arg params.
            if CHR ''='' \<in> set arg then
              (let key = takeWhile (\<lambda>c. c \<noteq> CHR ''='') arg;
                   val = tl (dropWhile (\<lambda>c. c \<noteq> CHR ''='') arg)
               in dict_set key (strip val quote_chars) params)
            else params)
         args []"

text \<open>How the process ends: by falling off the end of \<open>main\<close> (status 0), by
  \<open>sys.exit(1)\<close>, or by an uncaught exception (a traceback and status 1).\<close>

datatype exit = Exit0 | Exit1 | Traceback

fun exit_status :: "exit \<Rightarrow> nat" where
  "exit_status Exit0 = 0"
| "exit_status Exit1 = 1"
| "exit_status Traceback = 1"

text \<open>What \<open>main\<close> prints before it ends.\<close>

datatype gen_msg = Usage | InvalidCategory string | AlreadyExists string | Created string string

record run =
  status :: exit
  printed :: "gen_msg list"
  files :: "string \<Rightarrow> file_state"

text \<open>
  \<open>main\<close> (lines 246-282). \<open>argv\<close> is \<open>sys.argv\<close>; \<open>fs\<close> is the file system before the run and
  \<open>files\<close> the file system after it. \<open>can_create\<close> tells whether \<open>write_text\<close> succeeds at a
  path where nothing exists; when it raises, nothing is taken to have been created.
\<close>

definition main ::
  "string \<Rightarrow> string \<Rightarrow> (string \<Rightarrow> bool) \<Rightarrow> string list \<Rightarrow> (string \<Rightarrow> file_state) \<Rightarrow> run" where
  "main timestamp date can_create argv fs =
    (if length argv < 3 then \<lparr>status = Exit1, printed = [Usage], files = fs\<rparr>
     else
      (let category = argv ! 1;
           output_file = argv ! 2;
           params = parse_overrides (drop 3 argv)
       in case generate_template timestamp date category params of
            Inl SysExit1 \<Rightarrow> \<lparr>status = Exit1, printed = [InvalidCategory category], files = fs\<rparr>
          | Inl (FormatRaised e) \<Rightarrow> \<lparr>status = Traceback, printed = [], files = fs\<rparr>
          | Inl CallTypeError \<Rightarrow> \<lparr>status = Traceback, printed = [], files = fs\<rparr>
          | Inr content \<Rightarrow>
              if fs output_file \<noteq> Absent then
                \<lparr>status = Exit1, printed = [AlreadyExists output_file], files = fs\<rparr>
              else if \<not> can_create output_file then
                \<lparr>status = Traceback, printed = [], files = fs\<rparr>
              else
                \<lparr>status = Exit0, printed = [Created category output_file],
                 files = fs(output_file := Text content)\<rparr>))"

text \<open>
  The reading of the command-line interface's words "exactly the outer quote character
  is stripped": a value that begins and ends with the same quote character loses that
  one character at each end, and any other value is left alone.
\<close>

definition spec_strip_outer_quote :: "string \<Rightarrow> string" where
  "spec_strip_outer_quote v =
    (if 2 \<le> length v \<and> hd v \<in> set quote_chars \<and> last v = hd v then butlast (tl v) else v)"

text \<open>
  The reading of the words "the category's template string with all placeholders
  substituted": the text is copied, and every marker, from an opening brace to the
  next closing brace, is replaced by the value that the parameters give to the name
  between the braces. There is no result when a marker is not closed or when its name
  has no value.
\<close>

function spec_substitute :: "(string \<times> string) list \<Rightarrow> string \<Rightarrow> string option" where
  "spec_substitute params [] = Some []"
| "spec_substitute params (c # cs) =
     (if c = CHR ''{'' then
        (if CHR ''}'' \<in> set cs then
           (case map_of params (takeWhile (\<lambda>x. x \<noteq> CHR ''}'') cs) of
              None \<Rightarrow> None
            | Some v \<Rightarrow>
                map_option (\<lambda>out. v @ out)
                  (spec_substitute params (tl (dropWhile (\<lambda>x. x \<noteq> CHR ''}'') cs))))
         else None)
      else map_option (\<lambda>out. c # out) (spec_substitute params cs))"
  by pat_completeness auto
termination
proof (relation "measure (\<lambda>(params, t). length t)")
  show "wf (measure (\<lambda>(params, t). length t))"
    by simp
next
  fix params :: "(string \<times> string) list" and c :: char and cs :: string and v :: string
  have "length (tl (dropWhile (\<lambda>x. x \<noteq> CHR ''}'') cs)) \<le> length cs"
    using length_dropWhile_le [of "\<lambda>x. x \<noteq> CHR ''}''" cs] by simp
  then show "((params, tl (dropWhile (\<lambda>x. x \<noteq> CHR ''}'') cs)), (params, c # cs))
      \<in> measure (\<lambda>(params, t). length t)"
    by simp
next
  fix params :: "(string \<times> string) list" and c :: char and cs :: string
  show "((params, cs), (params, c # cs)) \<in> measure (\<lambda>(params, t). length t)"
    by simp
qed

subsection \<open>Auxiliary notions for the properties of \<open>str.format\<close>\<close>

text \<open>
  \<open>plain_fields keys st t\<close>: read from the state \<open>st\<close> on, the format string \<open>t\<close> is well
  formed, has no doubled brace, and every replacement field is a plain name that
  belongs to \<open>keys\<close>.
\<close>

fun plain_fields :: "string list \<Rightarrow> string option \<Rightarrow> string \<Rightarrow> bool" where
  "plain_fields keys None [] = True"
| "plain_fields keys None (c # cs) =
     (if c = CHR ''{'' then
        (case cs of [] \<Rightarrow> False
         | c' # cs' \<Rightarrow> c' \<noteq> CHR ''{'' \<and> plain_fields keys (Some []) cs)
      else c \<noteq> CHR ''}'' \<and> plain_fields keys None cs)"
| "plain_fields keys (Some acc) [] = False"
| "plain_fields keys (Some acc) (c # cs) =
     (if c = CHR ''}'' then
        rev acc \<noteq> [] \<and> \<not> list_all is_digit (rev acc) \<and> rev acc \<in> set keys \<and>
        plain_fields keys None cs
      else c \<notin> set ''{!:.['' \<and> plain_fields keys (Some (c # acc)) cs)"

text \<open>A text without any brace character.\<close>

definition no_brace :: "string \<Rightarrow> bool" where
  "no_brace s = list_all (\<lambda>c. c \<noteq> CHR ''{'' \<and> c \<noteq> CHR ''}'') s"

text \<open>The names for which \<open>generate_template\<close> has a built-in value.\<close>

definition default_keys :: "string list" where
  "default_keys = map fst (default_params [] [] [])"


section \<open>Concrete inputs used in the examples\<close>

text \<open>A loader that returns the same object for every text, and one that always raises.\<close>

definition const_load :: "yaml \<Rightarrow> string \<Rightarrow> load_result" where
  "const_load v block = Loaded v"

definition fail_load :: "string \<Rightarrow> load_result" where
  "fail_load block = YAMLError"

text \<open>A loader that, like PyYAML, raises a \<open>ValueError\<close> on a block holding the impossible
  date \<open>2026-02-30\<close>.\<close>

definition date_error_load :: "string \<Rightarrow> load_result" where
  "date_error_load block = (if block = ''updated: 2026-02-30'' then OtherError else YAMLError)"

text \<open>A stand-in for the \<open>str()\<close> of containers.\<close>

definition dots_str :: "yaml \<Rightarrow> string" where
  "dots_str v = ''[...]''"

text \<open>A file system with one text file, and an empty one.\<close>

definition one_file :: "string \<Rightarrow> string \<Rightarrow> string \<Rightarrow> file_state" where
  "one_file path content p = (if p = path then Text content else Absent)"

definition no_files :: "string \<Rightarrow> file_state" where
  "no_files p = Absent"

definition always_create :: "string \<Rightarrow> bool" where
  "always_create p = True"

text \<open>A document with a frontmatter block, and the mapping of the ssot scenario.\<close>

definition doc_with_block :: "string \<Rightarrow> string" where
  "doc_with_block block = fm_open @ block @ fm_close @ ''# Body''"

definition scenario_kvs :: "(string \<times> yaml) list" where
  "scenario_kvs =
    [(''title'', YStr ''X''), (''version'', YStr ''0.1.0''), (''updated'', YDate 2026 1 1),
     (''scope'', YStr ''all''), (''category'', YStr ''ssot''), (''subcategory'', YStr ''x''),
     (''domain'', YList [YStr ''x''])]"

text \<open>A plan document without \<open>updated\<close> and \<open>category\<close>, with a two-part version and a
  scalar domain.\<close>

definition plan_kvs :: "(string \<times> yaml) list" where
  "plan_kvs =
    [(''title'', YStr ''Roadmap''), (''version'', YStr ''1.2''), (''scope'', YStr ''all''),
     (''domain'', YStr ''analytics'')]"

text \<open>A value wrapped in double quotes around single quotes.\<close>

definition nested_value :: string where
  "nested_value = [CHR 0x22, CHR 0x27] @ ''x'' @ [CHR 0x27, CHR 0x22]"


text \<open>The plan document expected for the clock strings \<open>2026-01-20T10:00:00+00:00\<close> and
  \<open>2026-01-20\<close>.\<close>

definition rendered_plan :: string where
  "rendered_plan = unlines
    [''---'',
     ''title: New Memory'',
     ''version: 0.1.0'',
     ''updated: 2026-01-20T10:00:00+00:00'',
     ''scope: to-be-defined'',
     ''category: plan'',
     ''subcategory: general'',
     ''status: draft'',
     ''changelog:'',
     ''  - 0.1.0 (2026-01-20): Initial plan creation.'',
     ''---'',
     '''',
     ''## Objective'',
     ''What this plan aims to achieve...'',
     '''',
     ''## Background'',
     ''Context and motivation...'',
     '''',
     ''## Proposed Approach'',
     '''',
     ''### Phase 1: Phase Name'',
     ''- Task 1'',
     ''- Task 2'',
     '''',
     ''### Phase 2: Phase Name'',
     ''- Task 1'',
     ''- Task 2'',
     '''',
     ''## Success Criteria'',
     ''- [ ] Criterion 1'',
     ''- [ ] Criterion 2'',
     '''',
     ''## Risks & Mitigations'',
     ''| Risk | Impact | Mitigation |'',
     ''|------|--------|------------|'',
     ''| Risk 1 | High | Mitigation strategy |'',
     '''',
     ''## Timeline'',
     ''- Phase 1: Dates'',
     ''- Phase 2: Dates'',
     '''',
     ''## Related Docs'',
     ''- `related_ssot.md`'',
     ''- `related_pattern.md`'']"

section \<open>Properties of the generator\<close>

lemma no_brace_append: "no_brace (a @ b) = (no_brace a \<and> no_brace b)"
  by (simp add: no_brace_def)

lemma py_format_plain:
  assumes "plain_fields keys st t"
    and "set keys \<subseteq> fst ` set params"
  shows "\<exists>out. py_format params st t = Inr out \<and>
           ((\<forall>v \<in> snd ` set params. no_brace v) \<longrightarrow> no_brace out)"
  using assms
proof (induction params st t rule: py_format.induct)
  case (1 params)
  then show ?case by (simp add: no_brace_def)
next
  case (2 params c cs)
  show ?case
  proof (cases "c = CHR ''{''")
    case True
    with "2.prems" obtain c' cs' where cs: "cs = c' # cs'" and ne: "c' \<noteq> CHR ''{''"
      and pf: "plain_fields keys (Some []) cs"
      by (auto split: list.splits)
    from "2.IH"(2) [OF True cs ne pf "2.prems"(2)] show ?thesis
      using True cs ne by simp
  next
    case False
    with "2.prems" have nc: "c \<noteq> CHR ''}''" and pf: "plain_fields keys None cs"
      by auto
    from "2.IH"(4) [OF False nc pf "2.prems"(2)] show ?thesis
      using False nc by (auto simp: emit_def no_brace_def)
  qed
next
  case (3 params acc)
  then show ?case by simp
next
  case (4 params acc c cs)
  show ?case
  proof (cases "c = CHR ''}''")
    case True
    with "4.prems" have ne: "rev acc \<noteq> []" and nd: "\<not> list_all is_digit (rev acc)"
      and mem: "rev acc \<in> set keys" and pf: "plain_fields keys None cs"
      by auto
    from mem "4.prems"(2) obtain v where v: "map_of params (rev acc) = Some v"
      by (metis subsetD domIff dom_map_of_conv_image_fst not_Some_eq)
    then have fv: "field_value params (rev acc) = Inr v"
      using ne nd by (simp add: field_value_def)
    have "v \<in> snd ` set params"
      using v by (metis map_of_SomeD snd_conv image_eqI)
    then have vin: "(\<forall>v \<in> snd ` set params. no_brace v) \<longrightarrow> no_brace v"
      by blast
    from "4.IH"(1) [OF True fv pf "4.prems"(2)] obtain out where
      out: "py_format params None cs = Inr out"
        "(\<forall>v \<in> snd ` set params. no_brace v) \<longrightarrow> no_brace out"
      by blast
    have "py_format params (Some acc) (c # cs) = Inr (v @ out)"
      using True fv out(1) by (simp add: emit_def)
    with vin out(2) show ?thesis
      by (simp add: no_brace_append)
  next
    case False
    with "4.prems" have ns: "c \<notin> set ''{!:.[''" and pf: "plain_fields keys (Some (c # acc)) cs"
      by auto
    from "4.IH"(2) [OF False ns pf "4.prems"(2)] show ?thesis
      using False ns by simp
  qed
qed

lemma pf_ssot: "plain_fields default_keys None template_ssot"
  by code_simp
lemma pf_pattern: "plain_fields default_keys None template_pattern"
  by code_simp
lemma pf_reference: "plain_fields default_keys None template_reference"
  by code_simp
lemma pf_plan: "plain_fields default_keys None template_plan"
  by code_simp


lemma default_keys_fst: "set default_keys \<subseteq> fst ` set (default_params ts d c)"
proof -
  have "map fst (default_params ts d c) = default_keys"
    unfolding default_keys_def default_params_def by simp
  then have "set default_keys = set (map fst (default_params ts d c))"
    by simp
  then show ?thesis
    by (simp only: set_map) 
qed


lemma generate_template_plain:
  assumes "map_of TEMPLATES category = Some t" "plain_fields default_keys None t"
  shows "\<exists>out. generate_template ts d category [] = Inr out \<and>
     (no_brace ts \<and> no_brace d \<and> no_brace category \<longrightarrow> no_brace out)"
proof -
  from py_format_plain [OF assms(2) default_keys_fst, of ts d category]
  obtain out where out: "py_format (default_params ts d category) None t = Inr out"
    "(\<forall>v \<in> snd ` set (default_params ts d category). no_brace v) \<longrightarrow> no_brace out"
    by blast
  have vals: "no_brace ts \<and> no_brace d \<and> no_brace category \<longrightarrow>
    (\<forall>v \<in> snd ` set (default_params ts d category). no_brace v)"
    unfolding default_params_def by (simp add: no_brace_def)
  have "generate_template ts d category [] = Inr out"
    unfolding generate_template_def dict_update_def using assms(1) out(1) by simp
  with out(2) vals show ?thesis
    by blast
qed


lemma py_format_field:
  assumes "plain_fields keys (Some acc) t"
  shows "\<exists>name rest. t = name @ CHR ''}'' # rest \<and> CHR ''}'' \<notin> set name \<and>
     rev acc @ name \<in> set keys \<and> rev acc @ name \<noteq> [] \<and>
     \<not> list_all is_digit (rev acc @ name) \<and>
     plain_fields keys None rest \<and>
     py_format params (Some acc) t =
       (case field_value params (rev acc @ name) of
          Inl e \<Rightarrow> Inl e
        | Inr v \<Rightarrow> emit v (py_format params None rest))"
  using assms
proof (induction t arbitrary: acc)
  case Nil
  then show ?case by simp
next
  case (Cons c cs)
  show ?case
  proof (cases "c = CHR ''}''")
    case True
    with Cons.prems have "rev acc \<noteq> []" "\<not> list_all is_digit (rev acc)"
      "rev acc \<in> set keys" "plain_fields keys None cs"
      by auto
    with True have "c # cs = [] @ CHR ''}'' # cs \<and> CHR ''}'' \<notin> set [] \<and>
       rev acc @ [] \<in> set keys \<and> rev acc @ [] \<noteq> [] \<and>
       \<not> list_all is_digit (rev acc @ []) \<and>
       plain_fields keys None cs \<and>
       py_format params (Some acc) (c # cs) =
         (case field_value params (rev acc @ []) of
            Inl e \<Rightarrow> Inl e
          | Inr v \<Rightarrow> emit v (py_format params None cs))"
      by simp
    then show ?thesis by blast
  next
    case False
    with Cons.prems have ns: "c \<notin> set ''{!:.[''"
      and pf: "plain_fields keys (Some (c # acc)) cs"
      by auto
    from Cons.IH [OF pf] obtain name rest where
      t: "cs = name @ CHR ''}'' # rest" and n: "CHR ''}'' \<notin> set name"
      and k: "rev (c # acc) @ name \<in> set keys" and ne: "rev (c # acc) @ name \<noteq> []"
      and nd: "\<not> list_all is_digit (rev (c # acc) @ name)"
      and r: "plain_fields keys None rest"
      and f: "py_format params (Some (c # acc)) cs =
         (case field_value params (rev (c # acc) @ name) of
            Inl e \<Rightarrow> Inl e
          | Inr v \<Rightarrow> emit v (py_format params None rest))"
      by blast
    have e: "rev (c # acc) @ name = rev acc @ (c # name)"
      by simp
    have "py_format params (Some acc) (c # cs) = py_format params (Some (c # acc)) cs"
      using False ns by simp
    with t n k ne nd r f False have "c # cs = (c # name) @ CHR ''}'' # rest \<and>
       CHR ''}'' \<notin> set (c # name) \<and>
       rev acc @ (c # name) \<in> set keys \<and> rev acc @ (c # name) \<noteq> [] \<and>
       \<not> list_all is_digit (rev acc @ (c # name)) \<and>
       plain_fields keys None rest \<and>
       py_format params (Some acc) (c # cs) =
         (case field_value params (rev acc @ (c # name)) of
            Inl e \<Rightarrow> Inl e
          | Inr v \<Rightarrow> emit v (py_format params None rest))"
      unfolding e by auto
    then show ?thesis by blast
  qed
qed

lemma takeWhile_until:
  "x \<notin> set name \<Longrightarrow> takeWhile (\<lambda>y. y \<noteq> x) (name @ x # rest) = name"
  by (induction name) auto

lemma dropWhile_until:
  "x \<notin> set name \<Longrightarrow> dropWhile (\<lambda>y. y \<noteq> x) (name @ x # rest) = x # rest"
  by (induction name) auto

lemma py_format_refines_spec:
  assumes "plain_fields keys None t" and "set keys \<subseteq> fst ` set params"
  shows "\<exists>out. py_format params None t = Inr out \<and> spec_substitute params t = Some out"
  using assms(1)
proof (induction "length t" arbitrary: t rule: less_induct)
  case less
  show ?case
  proof (cases t)
    case Nil
    then show ?thesis by simp
  next
    case (Cons c cs)
    show ?thesis
    proof (cases "c = CHR ''{''")
      case True
      with less.prems Cons obtain c' cs' where cs: "cs = c' # cs'" and nb: "c' \<noteq> CHR ''{''"
        and pf: "plain_fields keys (Some []) cs"
        by (auto split: list.splits)
      from py_format_field [OF pf, of params] obtain name rest where
        t: "cs = name @ CHR ''}'' # rest" and n: "CHR ''}'' \<notin> set name"
        and k: "name \<in> set keys" and ne: "name \<noteq> []"
        and nd: "\<not> list_all is_digit name"
        and r: "plain_fields keys None rest"
        and f: "py_format params (Some []) cs =
           (case field_value params name of
              Inl e \<Rightarrow> Inl e
            | Inr v \<Rightarrow> emit v (py_format params None rest))"
        by auto
      from k assms(2) obtain v where v: "map_of params name = Some v"
        by (metis subsetD domIff dom_map_of_conv_image_fst not_Some_eq)
      then have fv: "field_value params name = Inr v"
        using ne nd by (simp add: field_value_def)
      have "length rest < length t"
        using Cons t by simp
      from less.hyps [OF this r] obtain out where
        o: "py_format params None rest = Inr out" and s: "spec_substitute params rest = Some out"
        by blast
      have p: "py_format params None t = Inr (v @ out)"
        using Cons True cs nb f fv o by (simp add: emit_def)
      have tw: "takeWhile (\<lambda>x. x \<noteq> CHR ''}'') cs = name"
        unfolding t using n by (rule takeWhile_until)
      have dw: "dropWhile (\<lambda>x. x \<noteq> CHR ''}'') cs = CHR ''}'' # rest"
        unfolding t using n by (rule dropWhile_until)
      have m: "CHR ''}'' \<in> set cs"
        unfolding t by simp
      have "spec_substitute params t = Some (v @ out)"
        unfolding Cons using True m by (simp add: tw dw v s)
      with p show ?thesis by blast
    next
      case False
      with less.prems Cons have nc: "c \<noteq> CHR ''}''" and pf: "plain_fields keys None cs"
        by auto
      have "length cs < length t"
        using Cons by simp
      from less.hyps [OF this pf] obtain out where
        o: "py_format params None cs = Inr out" and s: "spec_substitute params cs = Some out"
        by blast
      have "py_format params None t = Inr (c # out)"
        using Cons False nc o by (simp add: emit_def)
      moreover have "spec_substitute params t = Some (c # out)"
        using Cons False s by simp
      ultimately show ?thesis by blast
    qed
  qed
qed

lemma generate_template_refines_spec:
  assumes "map_of TEMPLATES category = Some t" and "plain_fields default_keys None t"
  shows "\<exists>out. generate_template ts d category [] = Inr out \<and>
     spec_substitute (default_params ts d category) t = Some out \<and>
     (no_brace ts \<and> no_brace d \<and> no_brace category \<longrightarrow> no_brace out)"
proof -
  from py_format_refines_spec [OF assms(2) default_keys_fst, of ts d category]
  obtain out where out: "py_format (default_params ts d category) None t = Inr out"
    and sp: "spec_substitute (default_params ts d category) t = Some out"
    by blast
  have g: "generate_template ts d category [] = Inr out"
    unfolding generate_template_def dict_update_def using assms(1) out by simp
  from generate_template_plain [OF assms, of ts d] g
  have "no_brace ts \<and> no_brace d \<and> no_brace category \<longrightarrow> no_brace out"
    by simp
  with g sp show ?thesis
    by blast
qed

lemma templates_lookup:
  "map_of TEMPLATES ''ssot'' = Some template_ssot"
  "map_of TEMPLATES ''pattern'' = Some template_pattern"
  "map_of TEMPLATES ''reference'' = Some template_reference"
  "map_of TEMPLATES ''plan'' = Some template_plan"
  unfolding TEMPLATES_def by simp_all

lemma no_brace_names:
  "no_brace ''ssot''" "no_brace ''pattern''" "no_brace ''reference''" "no_brace ''plan''"
  unfolding no_brace_def by simp_all

text \<open>
  Claim C6. For each of the four supported categories (ssot, pattern, reference, plan),
  \<open>generate_template\<close> called without overrides returns a text, and that text is the
  category's template in which every placeholder has been replaced by its built-in
  default value. No \<open>KeyError\<close> (nor any other failure) can occur. The text contains no
  brace, hence no unresolved placeholder marker, as soon as the two clock strings
  contain none.
\<close>

theorem generate_template_no_overrides:
  assumes "category \<in> set [''ssot'', ''pattern'', ''reference'', ''plan'']"
  shows "\<exists>template out.
           map_of TEMPLATES category = Some template \<and>
           generate_template timestamp date category [] = Inr out \<and>
           spec_substitute (default_params timestamp date category) template = Some out \<and>
           (no_brace timestamp \<and> no_brace date \<longrightarrow> no_brace out)"
proof -
  from assms have "category = ''ssot'' \<or> category = ''pattern'' \<or>
      category = ''reference'' \<or> category = ''plan''"
    by simp
  then consider (ssot) "category = ''ssot''" | (pattern) "category = ''pattern''"
    | (reference) "category = ''reference''" | (plan) "category = ''plan''"
    by blast
  then show ?thesis
  proof cases
    case ssot
    from generate_template_refines_spec [OF templates_lookup(1) pf_ssot, of timestamp date]
      no_brace_names(1) templates_lookup(1)
    show ?thesis unfolding ssot by blast
  next
    case pattern
    from generate_template_refines_spec [OF templates_lookup(2) pf_pattern, of timestamp date]
      no_brace_names(2) templates_lookup(2)
    show ?thesis unfolding pattern by blast
  next
    case reference
    from generate_template_refines_spec [OF templates_lookup(3) pf_reference, of timestamp date]
      no_brace_names(3) templates_lookup(3)
    show ?thesis unfolding reference by blast
  next
    case plan
    from generate_template_refines_spec [OF templates_lookup(4) pf_plan, of timestamp date]
      no_brace_names(4) templates_lookup(4)
    show ?thesis unfolding plan by blast
  qed
qed

theorem generate_template_no_overrides_witness:
  "''plan'' \<in> set [''ssot'', ''pattern'', ''reference'', ''plan''] \<and>
   no_brace ''2026-01-20T10:00:00+00:00'' \<and> no_brace ''2026-01-20'' \<and>
   map_of TEMPLATES ''plan'' = Some template_plan \<and>
   generate_template ''2026-01-20T10:00:00+00:00'' ''2026-01-20'' ''plan'' [] = Inr rendered_plan \<and>
   spec_substitute (default_params ''2026-01-20T10:00:00+00:00'' ''2026-01-20'' ''plan'')
     template_plan = Some rendered_plan \<and>
   no_brace rendered_plan"
proof -
  let ?ts = "''2026-01-20T10:00:00+00:00''" and ?d = "''2026-01-20''"
  have m: "''plan'' \<in> set [''ssot'', ''pattern'', ''reference'', ''plan'']"
    by simp
  have t: "no_brace ?ts" and d: "no_brace ?d"
    unfolding no_brace_def by simp_all
  have e: "generate_template ?ts ?d ''plan'' [] = Inr rendered_plan"
    by code_simp
  from generate_template_no_overrides [OF m, of ?ts ?d]
  obtain template out where a: "map_of TEMPLATES ''plan'' = Some template"
    and b: "generate_template ?ts ?d ''plan'' [] = Inr out"
    and c: "spec_substitute (default_params ?ts ?d ''plan'') template = Some out"
    and n: "no_brace ?ts \<and> no_brace ?d \<longrightarrow> no_brace out"
    by blast
  from a templates_lookup(4) have tp: "template = template_plan"
    by simp
  from b e have o: "out = rendered_plan"
    by simp
  from c have c': "spec_substitute (default_params ?ts ?d ''plan'') template_plan
      = Some rendered_plan"
    unfolding tp o .
  from n t d have n': "no_brace rendered_plan"
    unfolding o by blast
  from m t d templates_lookup(4) e c' n' show ?thesis
    by blast
qed

section \<open>Properties of the validator\<close>

lemma missing_fields_dict:
  "missing_fields required (YDict kvs) = Inr (filter (\<lambda>f. f \<notin> set (map fst kvs)) required)"
  by (induction required) simp_all

lemma version_errors_dict:
  "\<exists>ve. version_errors container_str (YDict kvs) = Inr ve"
  unfolding version_errors_def
  by (cases "''version'' \<in> set (map fst kvs)")
     (auto simp: map_of_eq_None_iff split: option.splits)

lemma updated_warnings_dict:
  "\<exists>uw. updated_warnings container_str (YDict kvs) = Inr uw"
  unfolding updated_warnings_def
  by (cases "''updated'' \<in> set (map fst kvs)")
     (auto simp: map_of_eq_None_iff Let_def split: option.splits)

lemma domain_errors_dict:
  "\<exists>de. domain_errors (YDict kvs) = Inr de"
  unfolding domain_errors_def
  by (cases "''domain'' \<in> set (map fst kvs)")
     (auto simp: map_of_eq_None_iff split: option.splits)

lemma changelog_warnings_dict:
  "\<exists>cw. changelog_warnings category (YDict kvs) = Inr cw"
  unfolding changelog_warnings_def by simp

lemma validate_metadata_mapping:
  assumes f: "fs filepath = Text content"
    and fm: "extract_frontmatter safe_load content = Inr (YDict kvs)"
    and ve: "version_errors container_str (YDict kvs) = Inr ve"
    and uw: "updated_warnings container_str (YDict kvs) = Inr uw"
    and de: "domain_errors (YDict kvs) = Inr de"
    and cw: "changelog_warnings (category_of (path_name filepath)) (YDict kvs) = Inr cw"
  shows "validate_metadata safe_load container_str fs filepath =
    Inr \<lparr>returned =
           (validate_naming (path_name filepath) @
            required_errors (filter (\<lambda>f. f \<notin> set (map fst kvs))
               (required_for (category_of (path_name filepath)))) @ ve @ de = []),
         errors =
            validate_naming (path_name filepath) @
            required_errors (filter (\<lambda>f. f \<notin> set (map fst kvs))
               (required_for (category_of (path_name filepath)))) @ ve @ de,
         warnings = uw @ cw, results_printed = True\<rparr>"
  unfolding validate_metadata_def
  by (simp add: f fm ve uw de cw missing_fields_dict Let_def del: missing_fields.simps)

lemma validate_metadata_no_frontmatter:
  assumes f: "fs filepath = Text content"
    and fm: "extract_frontmatter safe_load content = Inr YNull"
  shows "validate_metadata safe_load container_str fs filepath =
    Inr \<lparr>returned = False,
         errors = validate_naming (path_name filepath) @ [msg_frontmatter],
         warnings = [], results_printed = True\<rparr>"
  unfolding validate_metadata_def by (simp add: f fm Let_def)




text \<open>
  A frontmatter block that parses to an object that is not a mapping is not a
  frontmatter in the sense of the properties below: on a number, for instance, the
  first membership test raises \<open>TypeError\<close> and the function returns nothing.
\<close>

lemma validate_metadata_scalar_block_raises:
  "validate_metadata (const_load (YInt 42)) dots_str
     (one_file ''ssot_a.md'' (doc_with_block ''42'')) ''ssot_a.md'' = Inl TypeError"
  by code_simp

text \<open>
  Claim C1. When the file holds a text whose frontmatter parses to a mapping,
  \<open>validate_metadata\<close> returns, and it returns true exactly when the list of errors it
  has accumulated is empty. That list is made of the naming errors, the required-field
  error, the version error and the domain error (the frontmatter error belongs to the
  other branch); the warnings of the updated-timestamp and changelog checks appear in
  the report only and have no part in the value returned.
\<close>

theorem validate_metadata_true_iff_no_errors:
  assumes "fs filepath = Text content"
    and "extract_frontmatter safe_load content = Inr (YDict kvs)"
  shows "\<exists>v ve de uw cw.
     validate_metadata safe_load container_str fs filepath = Inr v \<and>
     version_errors container_str (YDict kvs) = Inr ve \<and>
     domain_errors (YDict kvs) = Inr de \<and>
     updated_warnings container_str (YDict kvs) = Inr uw \<and>
     changelog_warnings (category_of (path_name filepath)) (YDict kvs) = Inr cw \<and>
     errors v =
       validate_naming (path_name filepath) @
       required_errors (filter (\<lambda>f. f \<notin> set (map fst kvs))
          (required_for (category_of (path_name filepath)))) @ ve @ de \<and>
     warnings v = uw @ cw \<and>
     returned v = (errors v = [])"
proof -
  obtain ve where ve: "version_errors container_str (YDict kvs) = Inr ve"
    using version_errors_dict by blast
  obtain uw where uw: "updated_warnings container_str (YDict kvs) = Inr uw"
    using updated_warnings_dict by blast
  obtain de where de: "domain_errors (YDict kvs) = Inr de"
    using domain_errors_dict by blast
  obtain cw where cw: "changelog_warnings (category_of (path_name filepath)) (YDict kvs) = Inr cw"
    using changelog_warnings_dict by blast
  show ?thesis
    using validate_metadata_mapping [where fs = fs and filepath = filepath, OF assms ve uw de cw] ve uw de cw by simp
qed

theorem validate_metadata_true_iff_no_errors_witness:
  "one_file ''docs/ssot_test_2026-01-01.md'' (doc_with_block ''title: X'')
      ''docs/ssot_test_2026-01-01.md'' = Text (doc_with_block ''title: X'') \<and>
   extract_frontmatter (const_load (YDict scenario_kvs)) (doc_with_block ''title: X'')
      = Inr (YDict scenario_kvs) \<and>
   (\<exists>v. validate_metadata (const_load (YDict scenario_kvs)) dots_str
          (one_file ''docs/ssot_test_2026-01-01.md'' (doc_with_block ''title: X''))
          ''docs/ssot_test_2026-01-01.md'' = Inr v \<and>
        warnings v \<noteq> [] \<and> returned v = (errors v = []))"
proof -
  have h1: "one_file ''docs/ssot_test_2026-01-01.md'' (doc_with_block ''title: X'')
      ''docs/ssot_test_2026-01-01.md'' = Text (doc_with_block ''title: X'')"
    by (simp add: one_file_def)
  have h2: "extract_frontmatter (const_load (YDict scenario_kvs)) (doc_with_block ''title: X'')
      = Inr (YDict scenario_kvs)"
    by code_simp
  have cw: "changelog_warnings (category_of (path_name ''docs/ssot_test_2026-01-01.md''))
      (YDict scenario_kvs) = Inr [msg_changelog]"
    by code_simp
  from validate_metadata_true_iff_no_errors
    [where fs = "one_file ''docs/ssot_test_2026-01-01.md'' (doc_with_block ''title: X'')"
       and filepath = "''docs/ssot_test_2026-01-01.md''" and container_str = dots_str,
     OF h1 h2] cw
  show ?thesis using h1 h2 by auto
qed

text \<open>
  Claim C2. When the parsed mapping lacks at least one field of the required list of the
  resolved category, \<open>validate_metadata\<close> adds one error, which lists the missing names
  in the order of the required list, and returns false. The later checks still run:
  their errors follow the required-field error and their warnings are reported.
\<close>

theorem missing_required_fields_reported:
  assumes "fs filepath = Text content"
    and "extract_frontmatter safe_load content = Inr (YDict kvs)"
    and "missing = filter (\<lambda>f. f \<notin> set (map fst kvs))
           (required_for (category_of (path_name filepath)))"
    and "missing \<noteq> []"
  shows "\<exists>ve de uw cw.
     version_errors container_str (YDict kvs) = Inr ve \<and>
     domain_errors (YDict kvs) = Inr de \<and>
     updated_warnings container_str (YDict kvs) = Inr uw \<and>
     changelog_warnings (category_of (path_name filepath)) (YDict kvs) = Inr cw \<and>
     validate_metadata safe_load container_str fs filepath =
       Inr \<lparr>returned = False,
            errors = validate_naming (path_name filepath) @
                     [''Missing required fields: '' @ join '', '' missing] @ ve @ de,
            warnings = uw @ cw, results_printed = True\<rparr>"
proof -
  obtain ve where ve: "version_errors container_str (YDict kvs) = Inr ve"
    using version_errors_dict by blast
  obtain uw where uw: "updated_warnings container_str (YDict kvs) = Inr uw"
    using updated_warnings_dict by blast
  obtain de where de: "domain_errors (YDict kvs) = Inr de"
    using domain_errors_dict by blast
  obtain cw where cw: "changelog_warnings (category_of (path_name filepath)) (YDict kvs) = Inr cw"
    using changelog_warnings_dict by blast
  have "required_errors missing = [''Missing required fields: '' @ join '', '' missing]"
    using assms(4) by (simp add: required_errors_def)
  then show ?thesis
    using validate_metadata_mapping [where fs = fs and filepath = filepath, OF assms(1,2) ve uw de cw] ve uw de cw assms(3)
    by simp
qed

theorem missing_required_fields_reported_witness:
  "one_file ''plan_roadmap.md'' (doc_with_block ''title: Roadmap'') ''plan_roadmap.md''
      = Text (doc_with_block ''title: Roadmap'') \<and>
   extract_frontmatter (const_load (YDict plan_kvs)) (doc_with_block ''title: Roadmap'')
      = Inr (YDict plan_kvs) \<and>
   [''updated'', ''category''] = filter (\<lambda>f. f \<notin> set (map fst plan_kvs))
      (required_for (category_of (path_name ''plan_roadmap.md''))) \<and>
   [''updated'', ''category''] \<noteq> ([] :: string list) \<and>
   validate_metadata (const_load (YDict plan_kvs)) dots_str
      (one_file ''plan_roadmap.md'' (doc_with_block ''title: Roadmap'')) ''plan_roadmap.md'' =
     Inr \<lparr>returned = False,
          errors = [''Missing required fields: updated, category'',
                    ''Invalid version format: 1.2 (should be x.y.z)'',
                    ''Domain field should be an array/list''],
          warnings = [], results_printed = True\<rparr>"
proof -
  have h1: "one_file ''plan_roadmap.md'' (doc_with_block ''title: Roadmap'') ''plan_roadmap.md''
      = Text (doc_with_block ''title: Roadmap'')"
    by (simp add: one_file_def)
  have h2: "extract_frontmatter (const_load (YDict plan_kvs)) (doc_with_block ''title: Roadmap'')
      = Inr (YDict plan_kvs)"
    by code_simp
  have h3: "[''updated'', ''category''] = filter (\<lambda>f. f \<notin> set (map fst plan_kvs))
      (required_for (category_of (path_name ''plan_roadmap.md'')))"
    by code_simp
  have h4: "[''updated'', ''category''] \<noteq> ([] :: string list)"
    by simp
  have n: "validate_naming (path_name ''plan_roadmap.md'') = []"
    by code_simp
  have ve: "version_errors dots_str (YDict plan_kvs) =
      Inr [''Invalid version format: 1.2 (should be x.y.z)'']"
    by code_simp
  have de: "domain_errors (YDict plan_kvs) = Inr [''Domain field should be an array/list'']"
    by code_simp
  have uw: "updated_warnings dots_str (YDict plan_kvs) = Inr []"
    by code_simp
  have cw: "changelog_warnings (category_of (path_name ''plan_roadmap.md'')) (YDict plan_kvs)
      = Inr []"
    by code_simp
  from missing_required_fields_reported
    [where fs = "one_file ''plan_roadmap.md'' (doc_with_block ''title: Roadmap'')"
       and filepath = "''plan_roadmap.md''" and container_str = dots_str,
     OF h1 h2 h3 h4]
  show ?thesis using h1 h2 h3 [symmetric] n ve de uw cw by simp
qed


lemma validate_version_examples:
  "validate_version container_str (YStr ''1.2.3'')"
  "\<not> validate_version container_str (YStr ''1.2'')"
  "\<not> validate_version container_str (YStr ''v1.2.3'')"
  "\<not> validate_version container_str (YStr ''1.2.3-beta'')"
  by code_simp+

text \<open>
  Claim C3. The version check is meant to accept exactly the strings of the form
  integer.integer.integer, with nothing before or after. The pattern ends with \<open>$\<close>,
  which also matches just before a final newline: the value \<open>1.2.3\<close> followed by a
  newline character is accepted, and a mapping holding it gets no version error.
\<close>

theorem validate_version_accepts_trailing_newline:
  "validate_version container_str (YStr (''1.2.3'' @ [CHR ''\<newline>''])) \<and>
   version_errors container_str
     (YDict [(''version'', YStr (''1.2.3'' @ [CHR ''\<newline>'']))]) = Inr []"
  by code_simp

lemma extract_frontmatter_YNull:
  "extract_frontmatter safe_load content = Inr YNull \<longleftrightarrow>
     re_frontmatter content = None \<or>
     (\<exists>block. re_frontmatter content = Some block \<and>
        (safe_load block = YAMLError \<or> safe_load block = Loaded YNull))"
  unfolding extract_frontmatter_def
  by (auto split: option.splits load_result.splits)

text \<open>
  Without a frontmatter block, with a block on which the loader raises a
  \<open>yaml.YAMLError\<close>, or with an empty block, \<open>validate_metadata\<close> stops after the
  extraction: it returns false and the report consists of the errors of the naming
  check, which ran before, followed by the frontmatter error. None of the later
  checks contributes: there is no other error and no warning.
\<close>

lemma no_frontmatter_is_a_hard_stop:
  assumes "fs filepath = Text content"
    and "re_frontmatter content = None \<or>
         (\<exists>block. re_frontmatter content = Some block \<and>
            (safe_load block = YAMLError \<or> safe_load block = Loaded YNull))"
  shows "validate_metadata safe_load container_str fs filepath =
    Inr \<lparr>returned = False,
         errors = validate_naming (path_name filepath) @ [msg_frontmatter],
         warnings = [], results_printed = True\<rparr>"
proof -
  from assms(2) have "extract_frontmatter safe_load content = Inr YNull"
    by (simp only: extract_frontmatter_YNull)
  with assms(1) show ?thesis
    by (rule validate_metadata_no_frontmatter)
qed

text \<open>The report of \<open>notes.md\<close> without frontmatter: the naming error, then the
  frontmatter error.\<close>

lemma no_frontmatter_report_of_notes:
  "validate_metadata fail_load dots_str (one_file ''notes.md'' ''hello'') ''notes.md'' =
     Inr \<lparr>returned = False, errors = [msg_prefix, msg_frontmatter], warnings = [],
          results_printed = True\<rparr>"
  by code_simp

text \<open>An exception of the loader that is not a \<open>yaml.YAMLError\<close> is not caught by
  \<open>extract_frontmatter\<close> and ends \<open>validate_metadata\<close>.\<close>

lemma validate_metadata_loader_error:
  assumes "fs filepath = Text content"
    and "re_frontmatter content = Some block"
    and "safe_load block = OtherError"
  shows "validate_metadata safe_load container_str fs filepath = Inl LoaderError"
  unfolding validate_metadata_def extract_frontmatter_def
  by (simp add: assms Let_def)

text \<open>
  Claim C4. A file whose text does not begin with a parseable frontmatter block is
  to be reported with the missing/invalid-frontmatter error and the value false, no
  other rule being evaluated. \<open>extract_frontmatter\<close> catches \<open>yaml.YAMLError\<close> only: on
  the block \<open>updated: 2026-02-30\<close>, where the loader raises a \<open>ValueError\<close> while it builds
  the date, the exception escapes from \<open>validate_metadata\<close>, which reports no
  frontmatter error and returns nothing.
\<close>

theorem unparseable_date_block_raises:
  "re_frontmatter (doc_with_block ''updated: 2026-02-30'') = Some ''updated: 2026-02-30'' \<and>
   date_error_load ''updated: 2026-02-30'' = OtherError \<and>
   validate_metadata date_error_load dots_str
     (one_file ''ssot_a.md'' (doc_with_block ''updated: 2026-02-30'')) ''ssot_a.md''
     = Inl LoaderError"
  by code_simp

text \<open>
  Claim C8. The file \<open>ssot_test_2026-01-01.md\<close> whose frontmatter is the mapping
  title: X, version: 0.1.0, updated: 2026-01-01 (a date), scope: all, category: ssot,
  subcategory: x, domain: [x], without a changelog key, is valid: the function
  returns true, with no error and the missing-changelog warning as only warning.
\<close>

theorem ssot_scenario_one_warning:
  assumes "path_name filepath = ''ssot_test_2026-01-01.md''"
    and "fs filepath = Text content"
    and "extract_frontmatter safe_load content = Inr (YDict scenario_kvs)"
  shows "validate_metadata safe_load container_str fs filepath =
    Inr \<lparr>returned = True, errors = [], warnings = [msg_changelog],
         results_printed = True\<rparr>"
proof -
  have n: "validate_naming ''ssot_test_2026-01-01.md'' = []"
    by code_simp
  have r: "required_errors (filter (\<lambda>f. f \<notin> set (map fst scenario_kvs))
      (required_for (category_of ''ssot_test_2026-01-01.md''))) = []"
    by code_simp
  have ve: "version_errors container_str (YDict scenario_kvs) = Inr []"
    by code_simp
  have uw: "updated_warnings container_str (YDict scenario_kvs) = Inr []"
    by code_simp
  have de: "domain_errors (YDict scenario_kvs) = Inr []"
    by code_simp
  have cw: "changelog_warnings (category_of (path_name filepath)) (YDict scenario_kvs) =
      Inr [msg_changelog]"
    unfolding assms(1) by code_simp
  from validate_metadata_mapping
    [where fs = fs and filepath = filepath, OF assms(2,3) ve uw de cw]
  show ?thesis
    unfolding assms(1) n r by simp
qed

theorem ssot_scenario_one_warning_witness:
  "path_name ''docs/ssot_test_2026-01-01.md'' = ''ssot_test_2026-01-01.md'' \<and>
   one_file ''docs/ssot_test_2026-01-01.md'' (doc_with_block ''title: X'')
      ''docs/ssot_test_2026-01-01.md'' = Text (doc_with_block ''title: X'') \<and>
   extract_frontmatter (const_load (YDict scenario_kvs)) (doc_with_block ''title: X'')
      = Inr (YDict scenario_kvs) \<and>
   validate_metadata (const_load (YDict scenario_kvs)) dots_str
      (one_file ''docs/ssot_test_2026-01-01.md'' (doc_with_block ''title: X''))
      ''docs/ssot_test_2026-01-01.md'' =
    Inr \<lparr>returned = True, errors = [], warnings = [msg_changelog],
         results_printed = True\<rparr>"
proof -
  have h0: "path_name ''docs/ssot_test_2026-01-01.md'' = ''ssot_test_2026-01-01.md''"
    by code_simp
  have h1: "one_file ''docs/ssot_test_2026-01-01.md'' (doc_with_block ''title: X'')
      ''docs/ssot_test_2026-01-01.md'' = Text (doc_with_block ''title: X'')"
    by (simp add: one_file_def)
  have h2: "extract_frontmatter (const_load (YDict scenario_kvs)) (doc_with_block ''title: X'')
      = Inr (YDict scenario_kvs)"
    by code_simp
  from ssot_scenario_one_warning
    [where fs = "one_file ''docs/ssot_test_2026-01-01.md'' (doc_with_block ''title: X'')"
       and filepath = "''docs/ssot_test_2026-01-01.md''" and container_str = dots_str,
     OF h0 h1 h2]
  show ?thesis using h0 h1 h2 by simp
qed


lemma required_for_None:
  "required_for None =
     [''title'', ''version'', ''updated'', ''scope'', ''category'', ''subcategory'', ''domain'']"
  by code_simp

lemma category_of_no_prefix:
  assumes "\<not> list_ex (startswith filename) CATEGORY_PREFIXES"
  shows "category_of filename = None"
proof -
  from assms have "find (startswith filename) CATEGORY_PREFIXES = None"
    by (simp add: find_None_iff list_ex_iff)
  then show ?thesis
    by (simp add: category_of_def)
qed

lemma validate_naming_no_prefix:
  assumes "\<not> list_ex (startswith filename) CATEGORY_PREFIXES"
  shows "validate_naming filename =
     msg_prefix # (if \<not> endswith filename ''.md'' then [msg_suffix] else [])"
  using assms unfolding validate_naming_def by (simp add: Let_def)

text \<open>
  Claim C9. A file name that starts with none of the recognised prefixes (such as
  \<open>notes.md\<close>) gets the naming error, its category resolves to none, and the required
  list used by the required-field check is the one of "ssot".
\<close>

theorem unknown_prefix_uses_ssot_fields:
  assumes "\<not> list_ex (startswith (path_name filepath)) CATEGORY_PREFIXES"
    and "fs filepath = Text content"
    and "extract_frontmatter safe_load content = Inr (YDict kvs)"
  shows "category_of (path_name filepath) = None \<and>
     required_for (category_of (path_name filepath)) =
       [''title'', ''version'', ''updated'', ''scope'', ''category'', ''subcategory'', ''domain''] \<and>
     (\<exists>ve de uw cw.
        version_errors container_str (YDict kvs) = Inr ve \<and>
        domain_errors (YDict kvs) = Inr de \<and>
        updated_warnings container_str (YDict kvs) = Inr uw \<and>
        changelog_warnings None (YDict kvs) = Inr cw \<and>
        validate_metadata safe_load container_str fs filepath =
          Inr \<lparr>returned = False,
               errors = msg_prefix #
                 (if \<not> endswith (path_name filepath) ''.md'' then [msg_suffix] else []) @
                 required_errors (filter (\<lambda>f. f \<notin> set (map fst kvs))
                   [''title'', ''version'', ''updated'', ''scope'', ''category'',
                    ''subcategory'', ''domain'']) @ ve @ de,
               warnings = uw @ cw, results_printed = True\<rparr>)"
proof -
  have c: "category_of (path_name filepath) = None"
    using assms(1) by (rule category_of_no_prefix)
  obtain ve where ve: "version_errors container_str (YDict kvs) = Inr ve"
    using version_errors_dict by blast
  obtain uw where uw: "updated_warnings container_str (YDict kvs) = Inr uw"
    using updated_warnings_dict by blast
  obtain de where de: "domain_errors (YDict kvs) = Inr de"
    using domain_errors_dict by blast
  obtain cw where cw: "changelog_warnings None (YDict kvs) = Inr cw"
    using changelog_warnings_dict by blast
  have cw': "changelog_warnings (category_of (path_name filepath)) (YDict kvs) = Inr cw"
    using cw c by simp
  have "validate_metadata safe_load container_str fs filepath =
          Inr \<lparr>returned = False,
               errors = msg_prefix #
                 (if \<not> endswith (path_name filepath) ''.md'' then [msg_suffix] else []) @
                 required_errors (filter (\<lambda>f. f \<notin> set (map fst kvs))
                   [''title'', ''version'', ''updated'', ''scope'', ''category'',
                    ''subcategory'', ''domain'']) @ ve @ de,
               warnings = uw @ cw, results_printed = True\<rparr>"
    using validate_metadata_mapping
      [where fs = fs and filepath = filepath, OF assms(2,3) ve uw de cw']
    unfolding c required_for_None validate_naming_no_prefix [OF assms(1)]
    by simp
  with c ve uw de cw show ?thesis
    by (simp add: required_for_None)
qed

theorem unknown_prefix_uses_ssot_fields_witness:
  "\<not> list_ex (startswith (path_name ''notes.md'')) CATEGORY_PREFIXES \<and>
   one_file ''notes.md'' (doc_with_block ''title: Roadmap'') ''notes.md''
      = Text (doc_with_block ''title: Roadmap'') \<and>
   extract_frontmatter (const_load (YDict plan_kvs)) (doc_with_block ''title: Roadmap'')
      = Inr (YDict plan_kvs) \<and>
   validate_metadata (const_load (YDict plan_kvs)) dots_str
      (one_file ''notes.md'' (doc_with_block ''title: Roadmap'')) ''notes.md'' =
     Inr \<lparr>returned = False,
          errors = [msg_prefix,
                    ''Missing required fields: updated, category, subcategory'',
                    ''Invalid version format: 1.2 (should be x.y.z)'',
                    ''Domain field should be an array/list''],
          warnings = [], results_printed = True\<rparr>"
proof -
  have h0: "\<not> list_ex (startswith (path_name ''notes.md'')) CATEGORY_PREFIXES"
    by code_simp
  have h1: "one_file ''notes.md'' (doc_with_block ''title: Roadmap'') ''notes.md''
      = Text (doc_with_block ''title: Roadmap'')"
    by (simp add: one_file_def)
  have h2: "extract_frontmatter (const_load (YDict plan_kvs)) (doc_with_block ''title: Roadmap'')
      = Inr (YDict plan_kvs)"
    by code_simp
  have e: "endswith (path_name ''notes.md'') ''.md''"
    by code_simp
  have m: "required_errors (filter (\<lambda>f. f \<notin> set (map fst plan_kvs))
      [''title'', ''version'', ''updated'', ''scope'', ''category'', ''subcategory'', ''domain''])
      = [''Missing required fields: updated, category, subcategory'']"
    by code_simp
  have ve: "version_errors dots_str (YDict plan_kvs) =
      Inr [''Invalid version format: 1.2 (should be x.y.z)'']"
    by code_simp
  have de: "domain_errors (YDict plan_kvs) = Inr [''Domain field should be an array/list'']"
    by code_simp
  have uw: "updated_warnings dots_str (YDict plan_kvs) = Inr []"
    by code_simp
  have cw: "changelog_warnings None (YDict plan_kvs) = Inr []"
    by code_simp
  from unknown_prefix_uses_ssot_fields
    [where fs = "one_file ''notes.md'' (doc_with_block ''title: Roadmap'')"
       and filepath = "''notes.md''" and container_str = dots_str,
     OF h0 h1 h2]
  show ?thesis
    unfolding m using h0 h1 h2 e ve de uw cw by simp
qed


lemma startswith_append:
  assumes "startswith s p"
  shows "\<exists>rest. s = p @ rest"
proof -
  from assms have "take (length p) s = p"
    by (simp add: startswith_def)
  then have "s = p @ drop (length p) s"
    by (metis append_take_drop_id)
  then show ?thesis ..
qed

lemma category_of_troubleshoot:
  "category_of (''troubleshoot_'' @ rest) = Some ''troubleshoot''"
  by (simp add: category_of_def CATEGORY_PREFIXES_def startswith_def rstrip_def)

lemma category_of_commit_log:
  "category_of (''commit_log'' @ rest) = Some ''commit_log''"
  by (simp add: category_of_def CATEGORY_PREFIXES_def startswith_def rstrip_def)

lemma msg_prefix_neq_suffix: "msg_prefix \<noteq> msg_suffix"
  by code_simp

lemma validate_naming_with_prefix:
  assumes "list_ex (startswith filename) CATEGORY_PREFIXES"
  shows "validate_naming filename = (if \<not> endswith filename ''.md'' then [msg_suffix] else [])"
  using assms unfolding validate_naming_def by (simp add: Let_def)

lemma updated_warnings_not_changelog:
  assumes "updated_warnings container_str (YDict kvs) = Inr uw"
  shows "msg_changelog \<notin> set uw"
  using assms unfolding updated_warnings_def msg_changelog_def
  by (auto simp: Let_def split: if_splits bool.splits sum.splits option.splits)


lemma required_for_unlisted:
  "map_of REQUIRED_FIELDS ''troubleshoot'' = None"
  "map_of REQUIRED_FIELDS ''commit_log'' = None"
  "required_for (Some ''troubleshoot'') =
     [''title'', ''version'', ''updated'', ''scope'', ''category'', ''subcategory'', ''domain'']"
  "required_for (Some ''commit_log'') =
     [''title'', ''version'', ''updated'', ''scope'', ''category'', ''subcategory'', ''domain'']"
  by code_simp+

lemma changelog_warnings_unlisted:
  "changelog_warnings (Some ''troubleshoot'') metadata = Inr []"
  "changelog_warnings (Some ''commit_log'') metadata = Inr []"
  by (simp_all add: changelog_warnings_def)

lemma unlisted_prefix_facts:
  assumes "startswith filename ''troubleshoot_'' \<or> startswith filename ''commit_log''"
  shows "list_ex (startswith filename) CATEGORY_PREFIXES"
    and "category_of filename = Some ''troubleshoot'' \<or>
         category_of filename = Some ''commit_log''"
proof -
  from assms show "list_ex (startswith filename) CATEGORY_PREFIXES"
    by (auto simp: list_ex_iff CATEGORY_PREFIXES_def)
  from assms show "category_of filename = Some ''troubleshoot'' \<or>
         category_of filename = Some ''commit_log''"
  proof
    assume "startswith filename ''troubleshoot_''"
    then obtain rest where "filename = ''troubleshoot_'' @ rest"
      using startswith_append by blast
    then show ?thesis
      by (simp add: category_of_troubleshoot del: append.simps)
  next
    assume "startswith filename ''commit_log''"
    then obtain rest where "filename = ''commit_log'' @ rest"
      using startswith_append by blast
    then show ?thesis
      by (simp add: category_of_commit_log del: append.simps)
  qed
qed

text \<open>
  Claim C10. For a file name that starts with \<open>troubleshoot_\<close> or \<open>commit_log\<close> there is no
  naming error about the prefix, the category resolves to "troubleshoot" or
  "commit_log", the table of required fields has no entry for it, and the
  required-field check uses the list of "ssot". The changelog check, which looks at
  the category itself, gives no warning for these files.
\<close>

theorem unlisted_categories_fall_back_silently:
  assumes "startswith (path_name filepath) ''troubleshoot_'' \<or>
           startswith (path_name filepath) ''commit_log''"
    and "fs filepath = Text content"
    and "extract_frontmatter safe_load content = Inr (YDict kvs)"
  shows "(\<exists>c. category_of (path_name filepath) = Some c \<and>
            (c = ''troubleshoot'' \<or> c = ''commit_log'') \<and>
            map_of REQUIRED_FIELDS c = None) \<and>
     required_for (category_of (path_name filepath)) =
       [''title'', ''version'', ''updated'', ''scope'', ''category'', ''subcategory'', ''domain''] \<and>
     msg_prefix \<notin> set (validate_naming (path_name filepath)) \<and>
     changelog_warnings (category_of (path_name filepath)) (YDict kvs) = Inr [] \<and>
     (\<exists>v ve de uw.
        version_errors container_str (YDict kvs) = Inr ve \<and>
        domain_errors (YDict kvs) = Inr de \<and>
        updated_warnings container_str (YDict kvs) = Inr uw \<and>
        validate_metadata safe_load container_str fs filepath = Inr v \<and>
        errors v = validate_naming (path_name filepath) @
                 required_errors (filter (\<lambda>f. f \<notin> set (map fst kvs))
                   [''title'', ''version'', ''updated'', ''scope'', ''category'',
                    ''subcategory'', ''domain'']) @ ve @ de \<and>
        warnings v = uw \<and>
        msg_changelog \<notin> set (warnings v))"
proof -
  let ?name = "path_name filepath"
  note facts = unlisted_prefix_facts [OF assms(1)]
  from facts(2) have cat: "\<exists>c. category_of ?name = Some c \<and>
      (c = ''troubleshoot'' \<or> c = ''commit_log'') \<and> map_of REQUIRED_FIELDS c = None"
    using required_for_unlisted(1,2) by auto
  from facts(2) have req: "required_for (category_of ?name) =
      [''title'', ''version'', ''updated'', ''scope'', ''category'', ''subcategory'', ''domain'']"
    using required_for_unlisted(3,4) by auto
  have nam: "msg_prefix \<notin> set (validate_naming ?name)"
    using validate_naming_with_prefix [OF facts(1)] msg_prefix_neq_suffix by simp
  from facts(2) have cw: "changelog_warnings (category_of ?name) (YDict kvs) = Inr []"
    using changelog_warnings_unlisted by auto
  obtain ve where ve: "version_errors container_str (YDict kvs) = Inr ve"
    using version_errors_dict by blast
  obtain uw where uw: "updated_warnings container_str (YDict kvs) = Inr uw"
    using updated_warnings_dict by blast
  obtain de where de: "domain_errors (YDict kvs) = Inr de"
    using domain_errors_dict by blast
  note run = validate_metadata_mapping
      [where fs = fs and filepath = filepath, OF assms(2,3) ve uw de cw]
  have "\<exists>v ve de uw.
        version_errors container_str (YDict kvs) = Inr ve \<and>
        domain_errors (YDict kvs) = Inr de \<and>
        updated_warnings container_str (YDict kvs) = Inr uw \<and>
        validate_metadata safe_load container_str fs filepath = Inr v \<and>
        errors v = validate_naming ?name @
                 required_errors (filter (\<lambda>f. f \<notin> set (map fst kvs))
                   [''title'', ''version'', ''updated'', ''scope'', ''category'',
                    ''subcategory'', ''domain'']) @ ve @ de \<and>
        warnings v = uw \<and>
        msg_changelog \<notin> set (warnings v)"
    using run ve de uw updated_warnings_not_changelog [OF uw]
    unfolding req by simp
  with cat req nam cw show ?thesis
    by blast
qed

theorem unlisted_categories_fall_back_silently_witness:
  "(startswith (path_name ''commit_log_2026.md'') ''troubleshoot_'' \<or>
    startswith (path_name ''commit_log_2026.md'') ''commit_log'') \<and>
   one_file ''commit_log_2026.md'' (doc_with_block ''title: Roadmap'') ''commit_log_2026.md''
      = Text (doc_with_block ''title: Roadmap'') \<and>
   extract_frontmatter (const_load (YDict plan_kvs)) (doc_with_block ''title: Roadmap'')
      = Inr (YDict plan_kvs) \<and>
   category_of (path_name ''commit_log_2026.md'') = Some ''commit_log'' \<and>
   map_of REQUIRED_FIELDS ''commit_log'' = None \<and>
   validate_metadata (const_load (YDict plan_kvs)) dots_str
      (one_file ''commit_log_2026.md'' (doc_with_block ''title: Roadmap''))
      ''commit_log_2026.md'' =
     Inr \<lparr>returned = False,
          errors = [''Missing required fields: updated, category, subcategory'',
                    ''Invalid version format: 1.2 (should be x.y.z)'',
                    ''Domain field should be an array/list''],
          warnings = [], results_printed = True\<rparr>"
proof -
  have h0: "startswith (path_name ''commit_log_2026.md'') ''troubleshoot_'' \<or>
    startswith (path_name ''commit_log_2026.md'') ''commit_log''"
    by code_simp
  have h1: "one_file ''commit_log_2026.md'' (doc_with_block ''title: Roadmap'')
      ''commit_log_2026.md'' = Text (doc_with_block ''title: Roadmap'')"
    by (simp add: one_file_def)
  have h2: "extract_frontmatter (const_load (YDict plan_kvs)) (doc_with_block ''title: Roadmap'')
      = Inr (YDict plan_kvs)"
    by code_simp
  have c: "category_of (path_name ''commit_log_2026.md'') = Some ''commit_log''"
    by code_simp
  have t: "map_of REQUIRED_FIELDS ''commit_log'' = None"
    by code_simp
  have n: "validate_naming (path_name ''commit_log_2026.md'') = []"
    by code_simp
  have m: "required_errors (filter (\<lambda>f. f \<notin> set (map fst plan_kvs))
      [''title'', ''version'', ''updated'', ''scope'', ''category'', ''subcategory'', ''domain''])
      = [''Missing required fields: updated, category, subcategory'']"
    by code_simp
  have ve: "version_errors dots_str (YDict plan_kvs) =
      Inr [''Invalid version format: 1.2 (should be x.y.z)'']"
    by code_simp
  have de: "domain_errors (YDict plan_kvs) = Inr [''Domain field should be an array/list'']"
    by code_simp
  have uw: "updated_warnings dots_str (YDict plan_kvs) = Inr []"
    by code_simp
  from unlisted_categories_fall_back_silently
    [where fs = "one_file ''commit_log_2026.md'' (doc_with_block ''title: Roadmap'')"
       and filepath = "''commit_log_2026.md''" and container_str = dots_str,
     OF h0 h1 h2]
  obtain v where v: "validate_metadata (const_load (YDict plan_kvs)) dots_str
      (one_file ''commit_log_2026.md'' (doc_with_block ''title: Roadmap''))
      ''commit_log_2026.md'' = Inr v"
    and e: "errors v = [''Missing required fields: updated, category, subcategory'',
                    ''Invalid version format: 1.2 (should be x.y.z)'',
                    ''Domain field should be an array/list'']"
    and w: "warnings v = []"
    unfolding m n using ve de uw by auto
  have "returned v = False \<and> results_printed v = True"
    using validate_metadata_mapping
      [where fs = "one_file ''commit_log_2026.md'' (doc_with_block ''title: Roadmap'')"
         and filepath = "''commit_log_2026.md''" and container_str = dots_str
         and safe_load = "const_load (YDict plan_kvs)" and cw = "[]",
       OF h1 h2 ve uw de] v e c
    by (auto simp: changelog_warnings_def)
  with e w have "v = \<lparr>returned = False,
          errors = [''Missing required fields: updated, category, subcategory'',
                    ''Invalid version format: 1.2 (should be x.y.z)'',
                    ''Domain field should be an array/list''],
          warnings = [], results_printed = True\<rparr>"
    by simp
  with v h0 h1 h2 c t show ?thesis
    by simp
qed


section \<open>Properties of the command line of the generator\<close>

lemma map_of_dict_set: "map_of (dict_set k v d) k = Some v"
  by (induction d) auto

lemma parse_overrides_last:
  assumes "CHR ''='' \<in> set arg"
  shows "map_of (parse_overrides (args @ [arg])) (takeWhile (\<lambda>c. c \<noteq> CHR ''='') arg) =
     Some (strip (tl (dropWhile (\<lambda>c. c \<noteq> CHR ''='') arg)) quote_chars)"
  using assms unfolding parse_overrides_def
  by (simp add: map_of_dict_set Let_def)

lemma strip_decompose:
  "\<exists>pre post. s = pre @ strip s cs @ post \<and> set pre \<subseteq> set cs \<and> set post \<subseteq> set cs"
proof -
  let ?P = "\<lambda>c. c \<in> set cs"
  let ?post = "rev (takeWhile ?P (rev s))"
  let ?pre = "takeWhile ?P (rstrip s cs)"
  have "rev (takeWhile ?P (rev s) @ dropWhile ?P (rev s)) = rev (rev s)"
    by (simp only: takeWhile_dropWhile_id)
  then have "rev (dropWhile ?P (rev s)) @ rev (takeWhile ?P (rev s)) = s"
    by (simp only: rev_append rev_rev_ident)
  then have a: "s = rstrip s cs @ ?post"
    by (simp only: rstrip_def)
  have b: "rstrip s cs = ?pre @ strip s cs"
    by (simp add: strip_def)
  have "s = ?pre @ strip s cs @ ?post"
    using a b by (metis append.assoc)
  moreover have "set ?pre \<subseteq> set cs"
    by (auto dest: set_takeWhileD)
  moreover have "set ?post \<subseteq> set cs"
    by (auto dest: set_takeWhileD)
  ultimately show ?thesis by blast
qed

lemma strip_ends:
  assumes "strip s cs \<noteq> []"
  shows "hd (strip s cs) \<notin> set cs" and "last (strip s cs) \<notin> set cs"
proof -
  let ?P = "\<lambda>c. c \<in> set cs"
  from assms show "hd (strip s cs) \<notin> set cs"
    unfolding strip_def by (rule hd_dropWhile)
  have ne: "rstrip s cs \<noteq> []"
    using assms by (auto simp: strip_def)
  then have d: "dropWhile ?P (rev s) \<noteq> []"
    by (simp add: rstrip_def)
  have "last (strip s cs) = last (rstrip s cs)"
    using assms unfolding strip_def
    by (metis last_appendR takeWhile_dropWhile_id)
  also have "\<dots> = hd (dropWhile ?P (rev s))"
    using d by (simp add: rstrip_def last_rev)
  finally show "last (strip s cs) \<notin> set cs"
    using hd_dropWhile [OF d] by simp
qed


lemma map_of_dict_set_upd: "map_of (dict_set k v d) = (map_of d)(k \<mapsto> v)"
  by (induction d) (auto simp: fun_upd_twist)

lemma map_of_dict_update: "map_of (dict_update d e) = map_of d ++ map_of (rev e)"
  unfolding dict_update_def
proof (induction e arbitrary: d)
  case Nil
  then show ?case by simp
next
  case (Cons kv e)
  obtain k v where kv: "kv = (k, v)" by (cases kv)
  have "map_of (fold (\<lambda>(k, v). dict_set k v) e (dict_set k v d)) =
      map_of (dict_set k v d) ++ map_of (rev e)"
    by (rule Cons.IH)
  also have "\<dots> = map_of d ++ map_of (rev (kv # e))"
    unfolding kv by (simp add: map_of_dict_set_upd)
  finally show ?case
    unfolding kv by simp
qed

lemma keys_dict_set: "fst ` set (dict_set k v d) = insert k (fst ` set d)"
  by (induction d) (force split: if_splits)+

lemma distinct_dict_set: "distinct (map fst d) \<Longrightarrow> distinct (map fst (dict_set k v d))"
  by (induction d) (auto simp: keys_dict_set)

lemma distinct_parse_overrides: "distinct (map fst (parse_overrides args))"
proof -
  have "distinct (map fst d) \<Longrightarrow>
      distinct (map fst (fold (\<lambda>arg params.
            if CHR ''='' \<in> set arg then
              (let key = takeWhile (\<lambda>c. c \<noteq> CHR ''='') arg;
                   val = tl (dropWhile (\<lambda>c. c \<noteq> CHR ''='') arg)
               in dict_set key (strip val quote_chars) params)
            else params) args d))" for d
    by (induction args arbitrary: d) (simp_all add: distinct_dict_set Let_def)
  from this [of "[]"] show ?thesis
    by (simp add: parse_overrides_def)
qed

lemma map_of_rev_distinct: "distinct (map fst xs) \<Longrightarrow> map_of (rev xs) = map_of xs"
proof (induction xs)
  case Nil
  then show ?case by simp
next
  case (Cons kv xs)
  obtain k v where kv: "kv = (k, v)" by (cases kv)
  from Cons.prems have "map_of xs k = None"
    unfolding kv by (simp add: map_of_eq_None_iff)
  then have "map_of xs ++ [k \<mapsto> v] = [k \<mapsto> v] ++ map_of xs"
    by (intro map_add_comm) auto
  with Cons show ?case
    unfolding kv by simp
qed

lemma override_reaches_format:
  assumes "map_of (parse_overrides args) k = Some v"
  shows "map_of (dict_update defaults (parse_overrides args)) k = Some v"
  using assms
  by (simp add: map_of_dict_update map_of_rev_distinct [OF distinct_parse_overrides])


text \<open>
  Claim C5, as amended. For a trailing argument that contains an equals sign, the
  value is what follows the first equals sign, and the override stored under the key
  is that value without its leading and trailing quote characters: all of them are
  removed, single and double alike, paired or not, and the characters between them
  are kept as they are. That text is the one handed to the template.
\<close>

theorem override_value_loses_outer_quote_runs:
  assumes "CHR ''='' \<in> set arg"
    and "key = takeWhile (\<lambda>c. c \<noteq> CHR ''='') arg"
    and "raw = tl (dropWhile (\<lambda>c. c \<noteq> CHR ''='') arg)"
  shows "\<exists>pre v post.
     raw = pre @ v @ post \<and>
     set pre \<subseteq> set quote_chars \<and> set post \<subseteq> set quote_chars \<and>
     (v = [] \<or> (hd v \<notin> set quote_chars \<and> last v \<notin> set quote_chars)) \<and>
     map_of (parse_overrides (args @ [arg])) key = Some v \<and>
     map_of (dict_update defaults (parse_overrides (args @ [arg]))) key = Some v"
proof -
  let ?v = "strip raw quote_chars"
  obtain pre post where d: "raw = pre @ ?v @ post"
    "set pre \<subseteq> set quote_chars" "set post \<subseteq> set quote_chars"
    using strip_decompose by blast
  have e: "?v = [] \<or> (hd ?v \<notin> set quote_chars \<and> last ?v \<notin> set quote_chars)"
    using strip_ends by blast
  have m: "map_of (parse_overrides (args @ [arg])) key = Some ?v"
    unfolding assms(2,3) using assms(1) by (rule parse_overrides_last)
  then have "map_of (dict_update defaults (parse_overrides (args @ [arg]))) key = Some ?v"
    by (rule override_reaches_format)
  with d e m show ?thesis
    by blast
qed

theorem override_value_loses_outer_quote_runs_witness:
  "CHR ''='' \<in> set (''title='' @ nested_value) \<and>
   ''title'' = takeWhile (\<lambda>c. c \<noteq> CHR ''='') (''title='' @ nested_value) \<and>
   nested_value = tl (dropWhile (\<lambda>c. c \<noteq> CHR ''='') (''title='' @ nested_value)) \<and>
   (\<exists>pre v post.
     nested_value = pre @ v @ post \<and>
     set pre \<subseteq> set quote_chars \<and> set post \<subseteq> set quote_chars \<and>
     (v = [] \<or> (hd v \<notin> set quote_chars \<and> last v \<notin> set quote_chars)) \<and>
     map_of (parse_overrides ([] @ [''title='' @ nested_value])) ''title'' = Some v)"
proof -
  have h1: "CHR ''='' \<in> set (''title='' @ nested_value)"
    by simp
  have h2: "''title'' = takeWhile (\<lambda>c. c \<noteq> CHR ''='') (''title='' @ nested_value)"
    by simp
  have h3: "nested_value = tl (dropWhile (\<lambda>c. c \<noteq> CHR ''='') (''title='' @ nested_value))"
    by simp
  from override_value_loses_outer_quote_runs [OF h1 h2 h3, of "[]" "[]"]
  show ?thesis using h1 h2 h3 by blast
qed

text \<open>
  The claim as it was stated fails for a value wrapped in two layers of quotes: of
  \<open>"'x'"\<close> only \<open>x\<close> is left, where stripping exactly the outer quote character would
  leave \<open>'x'\<close>.
\<close>

theorem outer_quote_only_counterexample:
  "map_of (parse_overrides [''title='' @ nested_value]) ''title'' = Some ''x'' \<and>
   spec_strip_outer_quote nested_value = [CHR 0x27] @ ''x'' @ [CHR 0x27] \<and>
   map_of (parse_overrides [''title='' @ nested_value]) ''title''
     \<noteq> Some (spec_strip_outer_quote nested_value)"
  by code_simp


lemma main_existing_output:
  assumes "3 \<le> length argv" and "fs (argv ! 2) \<noteq> Absent"
  shows "status (main ts d cc argv fs) \<noteq> Exit0"
    and "exit_status (status (main ts d cc argv fs)) = 1"
    and "files (main ts d cc argv fs) = fs"
    and "status (main ts d cc argv fs) = Traceback \<or>
         printed (main ts d cc argv fs) = [InvalidCategory (argv ! 1)] \<or>
         printed (main ts d cc argv fs) = [AlreadyExists (argv ! 2)]"
    and "generate_template ts d (argv ! 1) (parse_overrides (drop 3 argv)) = Inr content \<Longrightarrow>
         main ts d cc argv fs =
           \<lparr>status = Exit1, printed = [AlreadyExists (argv ! 2)], files = fs\<rparr>"
  using assms unfolding main_def
  by (auto simp: Let_def split: sum.splits gen_fail.splits)

lemma main_success:
  assumes "status (main ts d cc argv fs) = Exit0"
  shows "3 \<le> length argv \<and>
     (\<exists>content. generate_template ts d (argv ! 1) (parse_overrides (drop 3 argv)) = Inr content \<and>
        files (main ts d cc argv fs) = fs(argv ! 2 := Text content) \<and>
        printed (main ts d cc argv fs) = [Created (argv ! 1) (argv ! 2)])"
  using assms unfolding main_def
  by (auto simp: Let_def split: sum.splits gen_fail.splits if_splits)


text \<open>
  Claim C7. When something already exists at the output path, the generator ends
  with status 1 after reporting an error (the already-exists message whenever the
  template could be generated; otherwise the invalid-category message or the
  traceback of the exception) and the file system is left exactly as it was.
  Consequently a second run with the output path of a successful first run fails
  and leaves in place the text that the first run wrote.
\<close>

theorem existing_output_is_never_overwritten:
  "(3 \<le> length argv \<and> fs (argv ! 2) \<noteq> Absent \<longrightarrow>
      status (main ts d cc argv fs) \<noteq> Exit0 \<and>
      exit_status (status (main ts d cc argv fs)) = 1 \<and>
      files (main ts d cc argv fs) = fs \<and>
      (status (main ts d cc argv fs) = Traceback \<or>
       printed (main ts d cc argv fs) = [InvalidCategory (argv ! 1)] \<or>
       printed (main ts d cc argv fs) = [AlreadyExists (argv ! 2)]) \<and>
      (\<forall>content.
         generate_template ts d (argv ! 1) (parse_overrides (drop 3 argv)) = Inr content \<longrightarrow>
         main ts d cc argv fs =
           \<lparr>status = Exit1, printed = [AlreadyExists (argv ! 2)], files = fs\<rparr>)) \<and>
   (status (main ts1 d1 cc1 argv1 fs1) = Exit0 \<and>
    3 \<le> length argv2 \<and> argv2 ! 2 = argv1 ! 2 \<longrightarrow>
      (\<exists>content.
         generate_template ts1 d1 (argv1 ! 1) (parse_overrides (drop 3 argv1)) = Inr content \<and>
         files (main ts1 d1 cc1 argv1 fs1) (argv1 ! 2) = Text content \<and>
         status (main ts2 d2 cc2 argv2 (files (main ts1 d1 cc1 argv1 fs1))) \<noteq> Exit0 \<and>
         exit_status (status (main ts2 d2 cc2 argv2 (files (main ts1 d1 cc1 argv1 fs1)))) = 1 \<and>
         files (main ts2 d2 cc2 argv2 (files (main ts1 d1 cc1 argv1 fs1))) (argv1 ! 2)
           = Text content \<and>
         files (main ts2 d2 cc2 argv2 (files (main ts1 d1 cc1 argv1 fs1)))
           = files (main ts1 d1 cc1 argv1 fs1)))"
proof (intro conjI impI)
  assume a: "3 \<le> length argv \<and> fs (argv ! 2) \<noteq> Absent"
  then have l: "3 \<le> length argv" and e: "fs (argv ! 2) \<noteq> Absent"
    by simp_all
  note m = main_existing_output [where fs = fs and argv = argv, OF l e]
  show "status (main ts d cc argv fs) \<noteq> Exit0"
    by (rule m(1))
  show "exit_status (status (main ts d cc argv fs)) = 1"
    by (rule m(2))
  show "files (main ts d cc argv fs) = fs"
    by (rule m(3))
  show "status (main ts d cc argv fs) = Traceback \<or>
       printed (main ts d cc argv fs) = [InvalidCategory (argv ! 1)] \<or>
       printed (main ts d cc argv fs) = [AlreadyExists (argv ! 2)]"
    by (rule m(4))
  show "\<forall>content.
         generate_template ts d (argv ! 1) (parse_overrides (drop 3 argv)) = Inr content \<longrightarrow>
         main ts d cc argv fs =
           \<lparr>status = Exit1, printed = [AlreadyExists (argv ! 2)], files = fs\<rparr>"
    using m(5) by blast
next
  let ?fs' = "files (main ts1 d1 cc1 argv1 fs1)"
  assume b: "status (main ts1 d1 cc1 argv1 fs1) = Exit0 \<and>
    3 \<le> length argv2 \<and> argv2 ! 2 = argv1 ! 2"
  then have ok: "status (main ts1 d1 cc1 argv1 fs1) = Exit0"
    and l: "3 \<le> length argv2" and p: "argv2 ! 2 = argv1 ! 2"
    by simp_all
  from main_success [OF ok] obtain content where
    g: "generate_template ts1 d1 (argv1 ! 1) (parse_overrides (drop 3 argv1)) = Inr content"
    and f: "?fs' = fs1(argv1 ! 2 := Text content)"
    by blast
  from f have t: "?fs' (argv1 ! 2) = Text content"
    by simp
  then have e: "?fs' (argv2 ! 2) \<noteq> Absent"
    using p by simp
  note m = main_existing_output [where fs = ?fs' and argv = argv2, OF l e]
  have "status (main ts2 d2 cc2 argv2 ?fs') \<noteq> Exit0"
    by (rule m(1))
  moreover have "exit_status (status (main ts2 d2 cc2 argv2 ?fs')) = 1"
    by (rule m(2))
  moreover have s: "files (main ts2 d2 cc2 argv2 ?fs') = ?fs'"
    by (rule m(3))
  moreover have "files (main ts2 d2 cc2 argv2 ?fs') (argv1 ! 2) = Text content"
    using s t by simp
  ultimately show "\<exists>content.
         generate_template ts1 d1 (argv1 ! 1) (parse_overrides (drop 3 argv1)) = Inr content \<and>
         ?fs' (argv1 ! 2) = Text content \<and>
         status (main ts2 d2 cc2 argv2 ?fs') \<noteq> Exit0 \<and>
         exit_status (status (main ts2 d2 cc2 argv2 ?fs')) = 1 \<and>
         files (main ts2 d2 cc2 argv2 ?fs') (argv1 ! 2) = Text content \<and>
         files (main ts2 d2 cc2 argv2 ?fs') = ?fs'"
    using g t by blast
qed


theorem existing_output_is_never_overwritten_witness:
  "(3 \<le> length [''generate_template.py'', ''plan'', ''plan_x.md''] \<and>
    one_file ''plan_x.md'' ''old text''
      ([''generate_template.py'', ''plan'', ''plan_x.md''] ! 2) \<noteq> Absent) \<and>
   main ''2026-01-20T10:00:00+00:00'' ''2026-01-20'' always_create
      [''generate_template.py'', ''plan'', ''plan_x.md''] (one_file ''plan_x.md'' ''old text'') =
     \<lparr>status = Exit1, printed = [AlreadyExists ''plan_x.md''],
      files = one_file ''plan_x.md'' ''old text''\<rparr> \<and>
   (status (main ''2026-01-20T10:00:00+00:00'' ''2026-01-20'' always_create
      [''generate_template.py'', ''plan'', ''plan_x.md''] no_files) = Exit0 \<and>
    3 \<le> length [''generate_template.py'', ''ssot'', ''plan_x.md''] \<and>
    [''generate_template.py'', ''ssot'', ''plan_x.md''] ! 2 =
      [''generate_template.py'', ''plan'', ''plan_x.md''] ! 2) \<and>
   files (main ''2026-01-21T11:00:00+00:00'' ''2026-01-21'' always_create
      [''generate_template.py'', ''ssot'', ''plan_x.md'']
      (files (main ''2026-01-20T10:00:00+00:00'' ''2026-01-20'' always_create
         [''generate_template.py'', ''plan'', ''plan_x.md''] no_files))) =
     files (main ''2026-01-20T10:00:00+00:00'' ''2026-01-20'' always_create
         [''generate_template.py'', ''plan'', ''plan_x.md''] no_files)"
proof -
  let ?ts = "''2026-01-20T10:00:00+00:00''" and ?d = "''2026-01-20''"
  let ?A = "[''generate_template.py'', ''plan'', ''plan_x.md'']"
  let ?B = "[''generate_template.py'', ''ssot'', ''plan_x.md'']"
  obtain out where out: "generate_template ?ts ?d ''plan'' [] = Inr out"
    using generate_template_plain [OF templates_lookup(4) pf_plan] by blast
  have po: "parse_overrides (drop 3 ?A) = []"
    by (simp add: parse_overrides_def)
  have g: "generate_template ?ts ?d (?A ! 1) (parse_overrides (drop 3 ?A)) = Inr out"
    unfolding po using out by simp
  have h1: "3 \<le> length ?A \<and> one_file ''plan_x.md'' ''old text'' (?A ! 2) \<noteq> Absent"
    by (simp add: one_file_def)
  have ok: "status (main ?ts ?d always_create ?A no_files) = Exit0"
    unfolding main_def po using out by (simp add: no_files_def always_create_def Let_def)
  have h2: "status (main ?ts ?d always_create ?A no_files) = Exit0 \<and>
      3 \<le> length ?B \<and> ?B ! 2 = ?A ! 2"
    using ok by simp
  note first = existing_output_is_never_overwritten
    [where argv = ?A and fs = "one_file ''plan_x.md'' ''old text''" and ts = ?ts and d = ?d
       and cc = always_create, THEN conjunct1, rule_format, OF h1]
  note second = existing_output_is_never_overwritten
    [where ?argv1.0 = ?A and ?fs1.0 = no_files and ?ts1.0 = ?ts and ?d1.0 = ?d
       and ?cc1.0 = always_create and ?argv2.0 = ?B and ?ts2.0 = "''2026-01-21T11:00:00+00:00''"
       and ?d2.0 = "''2026-01-21''" and ?cc2.0 = always_create,
     THEN conjunct2, rule_format, OF h2]
  from first g have a: "main ?ts ?d always_create ?A (one_file ''plan_x.md'' ''old text'') =
     \<lparr>status = Exit1, printed = [AlreadyExists ''plan_x.md''],
      files = one_file ''plan_x.md'' ''old text''\<rparr>"
    by simp
  from second have b: "files (main ''2026-01-21T11:00:00+00:00'' ''2026-01-21'' always_create ?B
      (files (main ?ts ?d always_create ?A no_files))) =
     files (main ?ts ?d always_create ?A no_files)"
    by blast
  from h1 a h2 b show ?thesis
    by blast
qed


end
